theory Spec2Isabelle
  imports Main
begin

section \<open>Python values shared by the whole interface\<close>

text \<open>
  The module \<^verbatim>\<open>polanyi/pyscf.py\<close> is embedded function by function. Every exception
  the Python can raise is a value of \<open>error\<close>; a call that can raise returns
  \<open>error + 'a\<close>, with \<open>Inl\<close> for the exception.
\<close>

datatype error =
    IndexError
  | NameError string
  | UnboundLocalError string
  | AttributeError
  | NotImplementedError
  | FileExistsError
  | FileNotFoundError
  | NotADirectoryError
  | IsADirectoryError
  | NotConvergedError string
  | ExternalError string

text \<open>
  \<^verbatim>\<open>xs[i]\<close> on a Python sequence: a negative index counts from the end, an index out of
  range raises \<^verbatim>\<open>IndexError\<close>.
\<close>

definition py_index :: "'a list \<Rightarrow> int \<Rightarrow> error + 'a" where
  "py_index xs i =
     (let n = int (length xs); j = (if i < 0 then i + n else i)
      in if 0 \<le> j \<and> j < n then Inr (xs ! nat j) else Inl IndexError)"

section \<open>EnginesWrapper on an object store\<close>

text \<open>
  Python objects have identity, so the wrapper lives in a store: an object's address is
  its position in the list of allocated objects, and \<^verbatim>\<open>id(x)\<close> is that address.
  An engine is opaque (\<open>'eng\<close> is its state); a list object holds the addresses of
  its elements; a wrapper holds, in its attribute \<^verbatim>\<open>engines\<close>, the address of the
  sequence it was built from.
\<close>

type_synonym addr = nat

datatype 'eng obj =
    Engine 'eng
  | PyList "addr list"
  | Wrapper addr

type_synonym 'eng store = "'eng obj list"

definition deref :: "'eng store \<Rightarrow> addr \<Rightarrow> 'eng obj option" where
  "deref h a = (if a < length h then Some (h ! a) else None)"

definition alloc :: "'eng store \<Rightarrow> 'eng obj \<Rightarrow> addr \<times> 'eng store" where
  "alloc h ob = (length h, h @ [ob])"

text \<open>
  \<^verbatim>\<open>def __init__(self, engine_list): self.engines = engine_list\<close>: the new object
  keeps the reference it is given; nothing is copied.
\<close>

definition EnginesWrapper_init :: "'eng store \<Rightarrow> addr \<Rightarrow> addr \<times> 'eng store" where
  "EnginesWrapper_init h engine_list = alloc h (Wrapper engine_list)"

text \<open>\<^verbatim>\<open>self.engines\<close>; an object that is no wrapper has no such attribute.\<close>

definition engines :: "'eng store \<Rightarrow> addr \<Rightarrow> error + addr" where
  "engines h self =
     (case deref h self of Some (Wrapper l) \<Rightarrow> Inr l | _ \<Rightarrow> Inl AttributeError)"

text \<open>The elements of the sequence object at an address.\<close>

definition elements :: "'eng store \<Rightarrow> addr \<Rightarrow> error + addr list" where
  "elements h l = (case deref h l of Some (PyList es) \<Rightarrow> Inr es | _ \<Rightarrow> Inl AttributeError)"

text \<open>\<^verbatim>\<open>def __getitem__(self, key): return self.engines[key]\<close>, for an integer key.\<close>

definition EnginesWrapper_getitem :: "'eng store \<Rightarrow> addr \<Rightarrow> int \<Rightarrow> error + addr" where
  "EnginesWrapper_getitem h self key =
     (case engines h self of
        Inl e \<Rightarrow> Inl e
      | Inr l \<Rightarrow> (case elements h l of Inl e \<Rightarrow> Inl e | Inr es \<Rightarrow> py_index es key))"

text \<open>\<^verbatim>\<open>def __len__(self): return len(self.engines)\<close>\<close>

definition EnginesWrapper_len :: "'eng store \<Rightarrow> addr \<Rightarrow> error + nat" where
  "EnginesWrapper_len h self =
     (case engines h self of
        Inl e \<Rightarrow> Inl e
      | Inr l \<Rightarrow> (case elements h l of Inl e \<Rightarrow> Inl e | Inr es \<Rightarrow> Inr (length es)))"

text \<open>
  \<^verbatim>\<open>
  def __deepcopy__(self, memo):
      new_wrapper = EnginesWrapper(self.engines)
      memo[id(self)] = new_wrapper
      return new_wrapper
  \<close>
  The memo dictionary maps the address of an object to the address of its copy. The
  result is the new wrapper's address, the updated memo and the updated store.
\<close>

definition EnginesWrapper_deepcopy ::
  "'eng store \<Rightarrow> addr \<Rightarrow> (addr \<rightharpoonup> addr) \<Rightarrow> error + (addr \<times> (addr \<rightharpoonup> addr) \<times> 'eng store)" where
  "EnginesWrapper_deepcopy h self memo =
     (case engines h self of
        Inl e \<Rightarrow> Inl e
      | Inr l \<Rightarrow>
          (let (new_wrapper, h') = EnginesWrapper_init h l
           in Inr (new_wrapper, memo(self \<mapsto> new_wrapper), h')))"

section \<open>The file system\<close>

text \<open>
  A path is the list of its components below the root; the root itself is \<open>[]\<close> and
  is always a directory. A file system maps a path to the node stored there. Only what
  the module's own calls distinguish is modelled: presence, file or directory, and a
  file's bytes. Permissions and symbolic links are not.
\<close>

type_synonym path = "string list"

datatype node = File string | Dir

type_synonym filesystem = "path \<rightharpoonup> node"

definition path_exists :: "filesystem \<Rightarrow> path \<Rightarrow> bool" where
  "path_exists fs p = (p = [] \<or> fs p \<noteq> None)"

definition is_dir :: "filesystem \<Rightarrow> path \<Rightarrow> bool" where
  "is_dir fs p = (p = [] \<or> fs p = Some Dir)"

text \<open>
  \<^verbatim>\<open>Path.mkdir(exist_ok=True)\<close>: nothing happens when the directory is there; a file
  at the path, or a missing or non-directory parent, raises.
\<close>

definition mkdir_exist_ok :: "path \<Rightarrow> filesystem \<Rightarrow> error + filesystem" where
  "mkdir_exist_ok p fs =
     (if path_exists fs p then (if is_dir fs p then Inr fs else Inl FileExistsError)
      else if is_dir fs (butlast p) then Inr (fs(p \<mapsto> Dir))
      else if path_exists fs (butlast p) then Inl NotADirectoryError
      else Inl FileNotFoundError)"

text \<open>
  \<^verbatim>\<open>Path.mkdir(exist_ok=True, parents=True)\<close>: a missing parent is created first, by
  the same call on the parent.
\<close>

function mkdir_parents :: "path \<Rightarrow> filesystem \<Rightarrow> error + filesystem" where
  "mkdir_parents p fs =
     (if path_exists fs p then (if is_dir fs p then Inr fs else Inl FileExistsError)
      else if is_dir fs (butlast p) then Inr (fs(p \<mapsto> Dir))
      else if path_exists fs (butlast p) then Inl NotADirectoryError
      else (case mkdir_parents (butlast p) fs of
              Inl e \<Rightarrow> Inl e
            | Inr fs' \<Rightarrow> mkdir_exist_ok p fs'))"
  by pat_completeness auto
termination
  by (relation "measure (\<lambda>(p, fs). length p)") (auto simp: path_exists_def)

declare mkdir_parents.simps [simp del]

text \<open>
  \<^verbatim>\<open>with open(p, "wb") as f: f.write(data)\<close>: the file is created or truncated and
  holds exactly \<open>data\<close> afterwards.
\<close>

definition open_wb_write :: "path \<Rightarrow> string \<Rightarrow> filesystem \<Rightarrow> error + filesystem" where
  "open_wb_write p data fs =
     (if is_dir fs p then Inl IsADirectoryError
      else if is_dir fs (butlast p) then Inr (fs(p \<mapsto> File data))
      else if path_exists fs (butlast p) then Inl NotADirectoryError
      else Inl FileNotFoundError)"

text \<open>\<^verbatim>\<open>os.remove(p)\<close> removes a file and raises on a directory or a missing path.\<close>

definition os_remove :: "path \<Rightarrow> filesystem \<Rightarrow> error + filesystem" where
  "os_remove p fs =
     (case fs p of
        None \<Rightarrow> Inl FileNotFoundError
      | Some Dir \<Rightarrow> Inl IsADirectoryError
      | Some (File d) \<Rightarrow> Inr (fs(p := None)))"

text \<open>A path lies in the tree at \<open>p\<close> when \<open>p\<close> is a prefix of it.\<close>

definition is_under :: "path \<Rightarrow> path \<Rightarrow> bool" where
  "is_under p q = (take (length p) q = p)"

definition remove_tree :: "path \<Rightarrow> filesystem \<Rightarrow> filesystem" where
  "remove_tree p fs = (\<lambda>q. if is_under p q then None else fs q)"

text \<open>
  \<^verbatim>\<open>shutil.rmtree(p)\<close> removes a directory with everything below it and raises on a
  file or a missing path.
\<close>

definition shutil_rmtree :: "path \<Rightarrow> filesystem \<Rightarrow> error + filesystem" where
  "shutil_rmtree p fs =
     (case fs p of
        None \<Rightarrow> Inl FileNotFoundError
      | Some (File d) \<Rightarrow> Inl NotADirectoryError
      | Some Dir \<Rightarrow> Inr (remove_tree p fs))"

text \<open>
  \<^verbatim>\<open>tempfile.mktemp(dir=d)\<close> returns the first candidate name under \<open>d\<close> at which
  nothing exists, and creates nothing. The random names the library draws are the list
  \<open>names\<close>; when all of them are taken the library raises \<^verbatim>\<open>FileExistsError\<close>.
\<close>

fun mktemp :: "path \<Rightarrow> string list \<Rightarrow> filesystem \<Rightarrow> error + path" where
  "mktemp d [] fs = Inl FileExistsError"
| "mktemp d (n # ns) fs =
     (if path_exists fs (d @ [n]) then mktemp d ns fs else Inr (d @ [n]))"

text \<open>
  \<^verbatim>\<open>TemporaryDirectory(dir=d)\<close> creates a directory at the first free candidate name
  under \<open>d\<close> and keeps its path as \<^verbatim>\<open>.name\<close>.
\<close>

fun TemporaryDirectory :: "path \<Rightarrow> string list \<Rightarrow> filesystem \<Rightarrow> error + (path \<times> filesystem)" where
  "TemporaryDirectory d [] fs = Inl FileExistsError"
| "TemporaryDirectory d (n # ns) fs =
     (if path_exists fs (d @ [n]) then TemporaryDirectory d ns fs
      else if is_dir fs d then Inr (d @ [n], fs(d @ [n] \<mapsto> Dir))
      else if path_exists fs d then Inl NotADirectoryError
      else Inl FileNotFoundError)"

text \<open>
  \<^verbatim>\<open>temp_dir.cleanup()\<close> removes the directory with its contents; a directory that
  is already gone is not an error.
\<close>

definition TemporaryDirectory_cleanup :: "path \<Rightarrow> filesystem \<Rightarrow> filesystem" where
  "TemporaryDirectory_cleanup p fs = remove_tree p fs"

text \<open>\<^verbatim>\<open>f"{tmpf}{suffix}"\<close>: the suffix extends the last component of the path.\<close>

definition with_suffix :: "path \<Rightarrow> string \<Rightarrow> path" where
  "with_suffix p suffix = butlast p @ [last p @ suffix]"

text \<open>\<^verbatim>\<open>str(i)\<close> for a natural number: its decimal digits.\<close>

fun str :: "nat \<Rightarrow> string" where
  "str n = (if n < 10 then [char_of (48 + n)] else str (n div 10) @ [char_of (48 + n mod 10)])"

section \<open>Data of the interface\<close>

text \<open>
  A Python float is a value of the type \<open>'a\<close>, of which only \<open>+\<close>, \<open>*\<close> and \<open>0\<close>
  are used; a two-dimensional array (\<^verbatim>\<open>Array2D\<close>) is a list of rows.
\<close>

type_synonym 'a array2d = "'a list list"

text \<open>
  Of a PySCF \<^verbatim>\<open>Mole\<close> the module reads the atomic charges, the coordinates (in Bohr)
  and, in \<^verbatim>\<open>optimize_ci\<close>, the symmetry setting and the detected point group.
  \<^verbatim>\<open>mol.symmetry\<close> is a flag or the name of a point group.
\<close>

datatype symmetry_setting = Symmetry_flag bool | Symmetry_group string

fun truthy :: "symmetry_setting \<Rightarrow> bool" where
  "truthy (Symmetry_flag b) = b"
| "truthy (Symmetry_group g) = (g \<noteq> [])"

record 'a mole =
  atom_charges :: "int list"
  atom_coords :: "'a array2d"
  symmetry :: symmetry_setting
  topgroup :: string

text \<open>The dataclass \<^verbatim>\<open>OptResults\<close>, field by field.\<close>

record 'a OptResults =
  coordinates :: "'a array2d list"
  energies_diabatic :: "'a list list"
  energies_adiabatic :: "'a list list"
  gradients_diabatic :: "'a array2d list list"
  gradients_adiabatic :: "'a array2d list list"
  indices :: "nat list list"
  stdout :: string
  stderr :: string

text \<open>\<^verbatim>\<open>OptResults()\<close>: every list is empty, both texts are empty.\<close>

definition OptResults_new :: "'a OptResults" where
  "OptResults_new =
     \<lparr>coordinates = [], energies_diabatic = [], energies_adiabatic = [],
      gradients_diabatic = [], gradients_adiabatic = [], indices = [],
      stdout = [], stderr = []\<rparr>"

text \<open>
  An \<^verbatim>\<open>XTBCalculator\<close> (class of \<^verbatim>\<open>polanyi.xtb\<close>, outside this file) is an object
  with a settable attribute \<^verbatim>\<open>coordinates\<close>; the rest of its state is \<open>internal\<close>.
\<close>

record ('a, 'k) XTBCalculator =
  calc_coordinates :: "'a array2d"
  internal :: 'k

text \<open>
  Calls that leave the module are recorded, in order, in a trace: a call of an
  evaluator with the coordinates handed to it, a call of the secular solver with its
  three arguments, a call of a geometry optimizer, a note written to the logger.
  The trace is written only by the wrappers \<open>call_run_xtb\<close>, \<open>call_sp\<close>,
  \<open>call_evb_eigenvalues\<close>, \<open>call_optimize\<close>, \<open>call_run_optimizer\<close> and
  \<open>logger_note\<close> below, and no function of the model reads it.
\<close>

datatype 'a event =
    Evaluator_call "'a array2d"
  | Solver_call "'a list" "'a array2d list" 'a
  | Optimizer_call
  | Logger_note string

text \<open>
  The mutable world: the file system, the trace, and the calculator objects, which are
  passed around by reference (an index into \<open>calculator_store\<close>).
\<close>

record ('a, 'k) world =
  files :: filesystem
  trace :: "'a event list"
  calculator_store :: "nat \<Rightarrow> ('a, 'k) XTBCalculator"

text \<open>
  What the module imports and does not define. Each is a parameter of the model:
  the constant \<^verbatim>\<open>BOHR_TO_ANGSTROM\<close> (\<^verbatim>\<open>polanyi.data\<close>); \<^verbatim>\<open>evb_eigenvalues\<close>
  (\<^verbatim>\<open>polanyi.evb\<close>), a function of its arguments that may raise; \<^verbatim>\<open>run_xtb\<close> and
  \<^verbatim>\<open>parse_engrad\<close> (\<^verbatim>\<open>polanyi.xtb\<close>), which act on the file system;
  \<^verbatim>\<open>XTBCalculator.sp(return_gradient=True)\<close>, which may change the calculator;
  \<^verbatim>\<open>convert_elements\<close> (\<^verbatim>\<open>polanyi.utils\<close>) with its two output modes, and the
  construction of a \<^verbatim>\<open>Mole\<close> from atoms and spin; the working directory, the two
  configured temporary roots, the candidate names the \<^verbatim>\<open>tempfile\<close> library draws,
  the path of \<^verbatim>\<open>log.ini\<close> beside the module, and the two defaults read from the
  PySCF configuration when the module is loaded.
\<close>

datatype element = Atomic_number int | Atomic_symbol string

record ('a, 'k) externals =
  BOHR_TO_ANGSTROM :: 'a
  evb_eigenvalues ::
    "'a list \<Rightarrow> 'a array2d list \<Rightarrow> 'a \<Rightarrow> error + ('a list \<times> 'a array2d list \<times> nat list)"
  run_xtb ::
    "int list \<Rightarrow> 'a array2d \<Rightarrow> path \<Rightarrow> string set \<Rightarrow> (string \<rightharpoonup> string list) option
       \<Rightarrow> filesystem \<Rightarrow> error option \<times> filesystem"
  parse_engrad :: "path \<Rightarrow> filesystem \<Rightarrow> error + ('a \<times> 'a list list)"
  sp :: "('a, 'k) XTBCalculator \<Rightarrow> (error + ('a \<times> 'a list list)) \<times> ('a, 'k) XTBCalculator"
  convert_to_symbols :: "element list \<Rightarrow> error + string list"
  convert_to_numbers :: "string list \<Rightarrow> error + int list"
  Mole_build :: "(string \<times> 'a list) list \<Rightarrow> int \<Rightarrow> error + 'a mole"
  cwd :: path
  config_TMP_DIR :: path
  lib_param_TMPDIR :: path
  tempfile_names :: "string list"
  log_ini :: string
  INCLUDE_GHOST :: bool
  ASSERT_CONV :: bool

section \<open>The surface bridges\<close>

text \<open>
  \<^verbatim>\<open>mol.atom_coords() * BOHR_TO_ANGSTROM\<close>: every entry of the array is multiplied by
  the constant.
\<close>

definition times_scalar :: "'a::times array2d \<Rightarrow> 'a \<Rightarrow> 'a array2d" where
  "times_scalar xs c = map (map (\<lambda>x. x * c)) xs"

text \<open>
  \<^verbatim>\<open>set([keyword.strip().lower() for keyword in keywords])\<close>, for ASCII text: leading
  and trailing white space is dropped and capital letters become small letters. The
  keywords arrive as a list or, from the drivers, as a set; only the set of their
  values matters.
\<close>

definition is_space :: "char \<Rightarrow> bool" where
  "is_space c = (let n = (of_char c :: nat) in (9 \<le> n \<and> n \<le> 13) \<or> (28 \<le> n \<and> n \<le> 32))"

definition strip :: "string \<Rightarrow> string" where
  "strip k = rev (dropWhile is_space (rev (dropWhile is_space k)))"

definition lower :: "string \<Rightarrow> string" where
  "lower k = map (\<lambda>c. let n = (of_char c :: nat) in if 65 \<le> n \<and> n \<le> 90 then char_of (n + 32) else c) k"

definition normalize_keywords :: "string set option \<Rightarrow> string set" where
  "normalize_keywords keywords =
     (\<lambda>k. lower (strip k)) ` (case keywords of None \<Rightarrow> {} | Some ks \<Rightarrow> ks)"

text \<open>The calls that leave the module; each adds its event to the trace.\<close>

definition call_run_xtb ::
  "('a, 'k) externals \<Rightarrow> int list \<Rightarrow> 'a array2d \<Rightarrow> path \<Rightarrow> string set
     \<Rightarrow> (string \<rightharpoonup> string list) option \<Rightarrow> ('a, 'k) world \<Rightarrow> error option \<times> ('a, 'k) world" where
  "call_run_xtb ext elems coords xtb_path keywords xcontrol_keywords w =
     (let (r, fs') = run_xtb ext elems coords xtb_path keywords xcontrol_keywords (files w)
      in (r, w\<lparr>files := fs', trace := trace w @ [Evaluator_call coords]\<rparr>))"

definition call_sp ::
  "('a, 'k) externals \<Rightarrow> nat \<Rightarrow> ('a, 'k) world \<Rightarrow> (error + ('a \<times> 'a array2d)) \<times> ('a, 'k) world" where
  "call_sp ext c w =
     (let calc = calculator_store w c; (r, calc') = sp ext calc
      in (r, w\<lparr>calculator_store := (calculator_store w)(c := calc'),
               trace := trace w @ [Evaluator_call (calc_coordinates calc)]\<rparr>))"

definition call_evb_eigenvalues ::
  "('a, 'k) externals \<Rightarrow> 'a list \<Rightarrow> 'a array2d list \<Rightarrow> 'a \<Rightarrow> ('a, 'k) world
     \<Rightarrow> (error + ('a list \<times> 'a array2d list \<times> nat list)) \<times> ('a, 'k) world" where
  "call_evb_eigenvalues ext energies gradients coupling w =
     (evb_eigenvalues ext energies gradients coupling,
      w\<lparr>trace := trace w @ [Solver_call energies gradients coupling]\<rparr>)"

text \<open>
  The staging at the head of the loop body of \<^verbatim>\<open>e_g_function\<close> and
  \<^verbatim>\<open>e_g_function_ci\<close>:
  \<^verbatim>\<open>
  xtb_path.mkdir(exist_ok=True)
  if not (xtb_path / "gfnff_topo").exists():
      with open(xtb_path / "gfnff_topo", "wb") as f:
          f.write(topology)
  \<close>
  Returned are the exception, if any, and the file system as it is then.
\<close>

definition stage_topology :: "string \<Rightarrow> path \<Rightarrow> filesystem \<Rightarrow> error option \<times> filesystem" where
  "stage_topology topology xtb_path fs =
     (case mkdir_exist_ok xtb_path fs of
        Inl e \<Rightarrow> (Some e, fs)
      | Inr fs1 \<Rightarrow>
          if \<not> path_exists fs1 (xtb_path @ [''gfnff_topo''])
          then (case open_wb_write (xtb_path @ [''gfnff_topo'']) topology fs1 of
                  Inl e \<Rightarrow> (Some e, fs1)
                | Inr fs2 \<Rightarrow> (None, fs2))
          else (None, fs1))"

text \<open>
  The loop \<^verbatim>\<open>for topology, xtb_path in zip(topologies, xtb_paths)\<close>, with the lists
  \<^verbatim>\<open>energies\<close> and \<^verbatim>\<open>gradients\<close> as accumulators. An exception ends it at once.
\<close>

fun xtb_loop ::
  "('a, 'k) externals \<Rightarrow> int list \<Rightarrow> 'a array2d \<Rightarrow> string set \<Rightarrow> (string \<rightharpoonup> string list) option
     \<Rightarrow> (string \<times> path) list \<Rightarrow> 'a list \<Rightarrow> 'a array2d list \<Rightarrow> ('a, 'k) world
     \<Rightarrow> (error + ('a list \<times> 'a array2d list)) \<times> ('a, 'k) world" where
  "xtb_loop ext elems coords keywords xc [] energies gradients w = (Inr (energies, gradients), w)"
| "xtb_loop ext elems coords keywords xc ((topology, xtb_path) # rest) energies gradients w =
     (case stage_topology topology xtb_path (files w) of
        (Some e, fs1) \<Rightarrow> (Inl e, w\<lparr>files := fs1\<rparr>)
      | (None, fs1) \<Rightarrow>
          (case call_run_xtb ext elems coords xtb_path keywords xc (w\<lparr>files := fs1\<rparr>) of
             (Some e, w2) \<Rightarrow> (Inl e, w2)
           | (None, w2) \<Rightarrow>
               (case parse_engrad ext (xtb_path @ [''xtb.engrad'']) (files w2) of
                  Inl e \<Rightarrow> (Inl e, w2)
                | Inr (energy, gradient) \<Rightarrow>
                    xtb_loop ext elems coords keywords xc rest
                      (energies @ [energy]) (gradients @ [gradient]) w2)))"

text \<open>
  \<^verbatim>\<open>[TemporaryDirectory(dir=config.TMP_DIR) for i in range(n)]\<close>: the directories are
  made one after the other.
\<close>

fun make_temp_dirs ::
  "('a, 'k) externals \<Rightarrow> nat \<Rightarrow> filesystem \<Rightarrow> (error + path list) \<times> filesystem" where
  "make_temp_dirs ext 0 fs = (Inr [], fs)"
| "make_temp_dirs ext (Suc n) fs =
     (case TemporaryDirectory (config_TMP_DIR ext) (tempfile_names ext) fs of
        Inl e \<Rightarrow> (Inl e, fs)
      | Inr (p, fs1) \<Rightarrow>
          (case make_temp_dirs ext n fs1 of
             (Inl e, fs2) \<Rightarrow> (Inl e, fs2)
           | (Inr ps, fs2) \<Rightarrow> (Inr (p # ps), fs2)))"

text \<open>
  The choice of the working directories, one per topology: temporary ones when no path
  is given (\<^verbatim>\<open>cleanup = True\<close>; the name of a temporary directory is absolute, so
  joining it to the working directory gives the name itself), else the subdirectories
  \<^verbatim>\<open>path / str(i)\<close> (\<^verbatim>\<open>cleanup = False\<close>). The result is \<open>(xtb_paths, temp_dirs,
  cleanup)\<close>.
\<close>

definition working_directories ::
  "('a, 'k) externals \<Rightarrow> path option \<Rightarrow> nat \<Rightarrow> filesystem
     \<Rightarrow> (error + (path list \<times> path list \<times> bool)) \<times> filesystem" where
  "working_directories ext path n fs =
     (case path of
        None \<Rightarrow>
          (case make_temp_dirs ext n fs of
             (Inl e, fs1) \<Rightarrow> (Inl e, fs1)
           | (Inr temp_dirs, fs1) \<Rightarrow> (Inr (temp_dirs, temp_dirs, True), fs1))
      | Some p \<Rightarrow> (Inr (map (\<lambda>i. p @ [str i]) [0..<n], [], False), fs))"

text \<open>
  \<^verbatim>\<open>energies[-1] += e_shift\<close>: the last entry is read, the shift is added, the sum is
  written back in place; an empty list raises \<^verbatim>\<open>IndexError\<close>.
\<close>

definition shift_last :: "'a::plus list \<Rightarrow> 'a \<Rightarrow> error + 'a list" where
  "shift_last energies e_shift =
     (case py_index energies (- 1) of
        Inl e \<Rightarrow> Inl e
      | Inr x \<Rightarrow> Inr (energies[length energies - 1 := x + e_shift]))"

text \<open>The six \<^verbatim>\<open>results.<list>.append(...)\<close> statements, in the order of the source.\<close>

definition store_results ::
  "'a array2d \<Rightarrow> 'a list \<Rightarrow> 'a list \<Rightarrow> 'a array2d list \<Rightarrow> 'a array2d list \<Rightarrow> nat list
     \<Rightarrow> 'a OptResults \<Rightarrow> 'a OptResults" where
  "store_results coords energies energies_ad gradients gradients_ad inds results =
     results\<lparr>coordinates := coordinates results @ [coords],
             energies_diabatic := energies_diabatic results @ [energies],
             energies_adiabatic := energies_adiabatic results @ [energies_ad],
             gradients_diabatic := gradients_diabatic results @ [gradients],
             gradients_adiabatic := gradients_adiabatic results @ [gradients_ad],
             indices := indices results @ [inds]\<rparr>"

text \<open>\<^verbatim>\<open>return energies_ad[1], gradients_ad[1]\<close>\<close>

definition return_state_1 :: "'a list \<Rightarrow> 'a array2d list \<Rightarrow> error + ('a \<times> 'a array2d)" where
  "return_state_1 energies_ad gradients_ad =
     (case py_index energies_ad 1 of
        Inl e \<Rightarrow> Inl e
      | Inr energy \<Rightarrow>
          (case py_index gradients_ad 1 of
             Inl e \<Rightarrow> Inl e
           | Inr gradient \<Rightarrow> Inr (energy, gradient)))"

text \<open>
  Lines 89 to 125 of \<^verbatim>\<open>e_g_function\<close>, which lines 170 to 207 of
  \<^verbatim>\<open>e_g_function_ci\<close> repeat word for word: the keywords, the working directories,
  the conversion of the coordinates to Angstrom, and the loop over the topologies. The
  result is \<open>(coordinates, energies, gradients, temp_dirs, cleanup)\<close>.
\<close>

definition evaluate_with_xtb ::
  "('a::times, 'k) externals \<Rightarrow> 'a mole \<Rightarrow> string list \<Rightarrow> string set option
     \<Rightarrow> (string \<rightharpoonup> string list) option \<Rightarrow> path option \<Rightarrow> ('a, 'k) world
     \<Rightarrow> (error + ('a array2d \<times> 'a list \<times> 'a array2d list \<times> path list \<times> bool)) \<times> ('a, 'k) world" where
  "evaluate_with_xtb ext mol topologies keywords xcontrol_keywords path w =
     (let keywords' = insert ''--grad'' (normalize_keywords keywords) in
      case working_directories ext path (length topologies) (files w) of
        (Inl e, fs0) \<Rightarrow> (Inl e, w\<lparr>files := fs0\<rparr>)
      | (Inr (xtb_paths, temp_dirs, cleanup), fs0) \<Rightarrow>
          (let elems = atom_charges mol;
               coords = times_scalar (atom_coords mol) (BOHR_TO_ANGSTROM ext)
           in case xtb_loop ext elems coords keywords' xcontrol_keywords
                     (zip topologies xtb_paths) [] [] (w\<lparr>files := fs0\<rparr>) of
                (Inl e, w1) \<Rightarrow> (Inl e, w1)
              | (Inr (energies, gradients), w1) \<Rightarrow>
                  (Inr (coords, energies, gradients, temp_dirs, cleanup), w1)))"

text \<open>
  \<^verbatim>\<open>e_g_function\<close> (lines 66 to 147). The result is the returned pair or the
  exception, the accumulator and the world. When an exception leaves the function the
  explicit clean-up of the temporary directories has not run.
\<close>

definition e_g_function ::
  "('a::{plus,times}, 'k) externals \<Rightarrow> 'a mole \<Rightarrow> string list \<Rightarrow> 'a OptResults
     \<Rightarrow> string set option \<Rightarrow> (string \<rightharpoonup> string list) option \<Rightarrow> 'a \<Rightarrow> 'a \<Rightarrow> path option
     \<Rightarrow> ('a, 'k) world \<Rightarrow> (error + ('a \<times> 'a array2d)) \<times> 'a OptResults \<times> ('a, 'k) world" where
  "e_g_function ext mol topologies results keywords xcontrol_keywords e_shift coupling path w =
     (case evaluate_with_xtb ext mol topologies keywords xcontrol_keywords path w of
        (Inl e, w1) \<Rightarrow> (Inl e, results, w1)
      | (Inr (coords, energies, gradients, temp_dirs, cleanup), w1) \<Rightarrow>
          (case shift_last energies e_shift of
             Inl e \<Rightarrow> (Inl e, results, w1)
           | Inr energies' \<Rightarrow>
               (case call_evb_eigenvalues ext energies' gradients coupling w1 of
                  (Inl e, w2) \<Rightarrow> (Inl e, results, w2)
                | (Inr (energies_ad, gradients_ad, inds), w2) \<Rightarrow>
                    (let w3 = (if cleanup
                               then w2\<lparr>files := fold TemporaryDirectory_cleanup temp_dirs (files w2)\<rparr>
                               else w2)
                     in (return_state_1 energies_ad gradients_ad,
                         store_results coords energies' energies_ad gradients gradients_ad inds results,
                         w3)))))"

text \<open>
  \<^verbatim>\<open>e_g_function_ci\<close> (lines 150 to 229) has no parameter \<^verbatim>\<open>coupling\<close>, yet
  passes \<^verbatim>\<open>coupling=coupling\<close> to the solver. The module has no global of that
  name, so evaluating the argument raises \<^verbatim>\<open>NameError\<close> and the solver is never
  called.
\<close>

definition e_g_function_ci ::
  "('a::{plus,times}, 'k) externals \<Rightarrow> 'a mole \<Rightarrow> string list \<Rightarrow> 'a OptResults
     \<Rightarrow> string set option \<Rightarrow> (string \<rightharpoonup> string list) option \<Rightarrow> 'a \<Rightarrow> path option
     \<Rightarrow> ('a, 'k) world \<Rightarrow> (error + ('a \<times> 'a array2d)) \<times> 'a OptResults \<times> ('a, 'k) world" where
  "e_g_function_ci ext mol topologies results keywords xcontrol_keywords e_shift path w =
     (case evaluate_with_xtb ext mol topologies keywords xcontrol_keywords path w of
        (Inl e, w1) \<Rightarrow> (Inl e, results, w1)
      | (Inr (coords, energies, gradients, temp_dirs, cleanup), w1) \<Rightarrow>
          (case shift_last energies e_shift of
             Inl e \<Rightarrow> (Inl e, results, w1)
           | Inr energies' \<Rightarrow> (Inl (NameError ''coupling''), results, w1)))"

text \<open>
  The loop \<^verbatim>\<open>for calculator in calculators\<close> of \<^verbatim>\<open>e_g_function_python\<close>:
  \<^verbatim>\<open>
  calculator.coordinates = coordinates
  energy, gradient = calculator.sp(return_gradient=True)
  energies.append(energy)
  gradients.append(gradient)
  \<close>
\<close>

fun calculators_loop ::
  "('a, 'k) externals \<Rightarrow> 'a array2d \<Rightarrow> nat list \<Rightarrow> 'a list \<Rightarrow> 'a array2d list \<Rightarrow> ('a, 'k) world
     \<Rightarrow> (error + ('a list \<times> 'a array2d list)) \<times> ('a, 'k) world" where
  "calculators_loop ext coords [] energies gradients w = (Inr (energies, gradients), w)"
| "calculators_loop ext coords (c # cs) energies gradients w =
     (let w1 = w\<lparr>calculator_store :=
                   (calculator_store w)(c := (calculator_store w c)\<lparr>calc_coordinates := coords\<rparr>)\<rparr>
      in case call_sp ext c w1 of
           (Inl e, w2) \<Rightarrow> (Inl e, w2)
         | (Inr (energy, gradient), w2) \<Rightarrow>
             calculators_loop ext coords cs (energies @ [energy]) (gradients @ [gradient]) w2)"

text \<open>
  \<^verbatim>\<open>e_g_function_python\<close> (lines 232 to 281). The path is resolved
  (\<^verbatim>\<open>Path.cwd()\<close> or \<^verbatim>\<open>Path(path)\<close>) and not used again.
\<close>

definition e_g_function_python ::
  "('a::{plus,times}, 'k) externals \<Rightarrow> 'a mole \<Rightarrow> nat list \<Rightarrow> 'a OptResults \<Rightarrow> 'a \<Rightarrow> 'a
     \<Rightarrow> path option \<Rightarrow> ('a, 'k) world
     \<Rightarrow> (error + ('a \<times> 'a array2d)) \<times> 'a OptResults \<times> ('a, 'k) world" where
  "e_g_function_python ext mol calculators results e_shift coupling path w =
     (let coords = times_scalar (atom_coords mol) (BOHR_TO_ANGSTROM ext)
      in case calculators_loop ext coords calculators [] [] w of
           (Inl e, w1) \<Rightarrow> (Inl e, results, w1)
         | (Inr (energies, gradients), w1) \<Rightarrow>
             (case shift_last energies e_shift of
                Inl e \<Rightarrow> (Inl e, results, w1)
              | Inr energies' \<Rightarrow>
                  (case call_evb_eigenvalues ext energies' gradients coupling w1 of
                     (Inl e, w2) \<Rightarrow> (Inl e, results, w2)
                   | (Inr (energies_ad, gradients_ad, inds), w2) \<Rightarrow>
                       (return_state_1 energies_ad gradients_ad,
                        store_results coords energies' energies_ad gradients gradients_ad inds results,
                        w2))))"

text \<open>
  \<^verbatim>\<open>e_g_function_ci_python\<close> (lines 284 to 311): one calculator, one evaluation,
  \<^verbatim>\<open>energy += e_shift\<close>, no solver and no accumulator.
\<close>

definition e_g_function_ci_python ::
  "('a::{plus,times}, 'k) externals \<Rightarrow> 'a mole \<Rightarrow> nat \<Rightarrow> 'a \<Rightarrow> path option \<Rightarrow> ('a, 'k) world
     \<Rightarrow> (error + ('a \<times> 'a array2d)) \<times> ('a, 'k) world" where
  "e_g_function_ci_python ext mol calculator e_shift path w =
     (let coords = times_scalar (atom_coords mol) (BOHR_TO_ANGSTROM ext);
          w1 = w\<lparr>calculator_store :=
                   (calculator_store w)(calculator := (calculator_store w calculator)\<lparr>calc_coordinates := coords\<rparr>)\<rparr>
      in case call_sp ext calculator w1 of
           (Inl e, w2) \<Rightarrow> (Inl e, w2)
         | (Inr (energy, gradient), w2) \<Rightarrow> (Inr (energy + e_shift, gradient), w2))"

text \<open>
  \<^verbatim>\<open>functools.partial(e_g_function, topologies=..., results=results, ...)\<close> and
  \<^verbatim>\<open>functools.partial(e_g_function_python, calculators=..., results=results, ...)\<close>:
  the function of the molecule alone that the drivers hand to the optimizer. The bound
  accumulator is an object the function changes, so it is part of the state the bound
  function works on.
\<close>

definition e_g_partial ::
  "('a::{plus,times}, 'k) externals \<Rightarrow> string list \<Rightarrow> string set option
     \<Rightarrow> (string \<rightharpoonup> string list) option \<Rightarrow> 'a \<Rightarrow> 'a \<Rightarrow> path option
     \<Rightarrow> 'a mole \<Rightarrow> 'a OptResults \<times> ('a, 'k) world
     \<Rightarrow> (error + ('a \<times> 'a array2d)) \<times> 'a OptResults \<times> ('a, 'k) world" where
  "e_g_partial ext topologies keywords xcontrol_keywords e_shift coupling path mol =
     (\<lambda>(results, w).
        e_g_function ext mol topologies results keywords xcontrol_keywords e_shift coupling path w)"

definition e_g_partial_python ::
  "('a::{plus,times}, 'k) externals \<Rightarrow> nat list \<Rightarrow> 'a \<Rightarrow> 'a \<Rightarrow> path option
     \<Rightarrow> 'a mole \<Rightarrow> 'a OptResults \<times> ('a, 'k) world
     \<Rightarrow> (error + ('a \<times> 'a array2d)) \<times> 'a OptResults \<times> ('a, 'k) world" where
  "e_g_partial_python ext calculators e_shift coupling path mol =
     (\<lambda>(results, w). e_g_function_python ext mol calculators results e_shift coupling path w)"



text \<open>A staged topology file is a path whose last component is \<^verbatim>\<open>gfnff_topo\<close>.\<close>

definition is_topology_file :: "path \<Rightarrow> bool" where
  "is_topology_file q = (q \<noteq> [] \<and> last q = ''gfnff_topo'')"

section \<open>The drivers\<close>

text \<open>
  A user callback and a constraints object are only passed on, never inspected.
\<close>

typedecl callback

typedecl constraints

text \<open>\<^verbatim>\<open>get_pyscf_mole\<close> (lines 529 to 547).\<close>

definition get_pyscf_mole ::
  "('a, 'k) externals \<Rightarrow> element list \<Rightarrow> 'a array2d \<Rightarrow> error + 'a mole" where
  "get_pyscf_mole ext elems coords =
     (case convert_to_symbols ext elems of
        Inl e \<Rightarrow> Inl e
      | Inr symbols \<Rightarrow>
          (let atoms = zip symbols coords
           in case convert_to_numbers ext symbols of
                Inl e \<Rightarrow> Inl e
              | Inr numbers \<Rightarrow>
                  (let n_electrons = sum_list numbers
                   in Mole_build ext atoms (n_electrons mod 2))))"

text \<open>
  The two optimizers of \<^verbatim>\<open>pyscf.geomopt\<close>. Their \<^verbatim>\<open>optimize\<close> is a parameter of
  the drivers: it receives the solver module, the bound energy and gradient function
  together with the molecule (what \<^verbatim>\<open>as_pyscf_method\<close> packs), the step ceiling, the
  callback and the convergence parameters, and runs on the state the bound function
  works on. It yields the exception it raises or the molecule it returns, with the text
  written to the standard output and the standard error streams meanwhile.
\<close>

datatype pyscf_solver = berny_solver | geometric_solver

type_synonym ('a, 's) pyscf_optimize =
  "pyscf_solver \<Rightarrow> ('a mole \<Rightarrow> 's \<Rightarrow> (error + ('a \<times> 'a array2d)) \<times> 's) \<Rightarrow> 'a mole \<Rightarrow> int
     \<Rightarrow> callback option \<Rightarrow> (string \<rightharpoonup> string) \<Rightarrow> 's \<Rightarrow> (error + 'a mole) \<times> string \<times> string \<times> 's"

definition call_optimize ::
  "('a, 'a OptResults \<times> ('a, 'k) world) pyscf_optimize \<Rightarrow> pyscf_solver
     \<Rightarrow> ('a mole \<Rightarrow> 'a OptResults \<times> ('a, 'k) world
           \<Rightarrow> (error + ('a \<times> 'a array2d)) \<times> 'a OptResults \<times> ('a, 'k) world)
     \<Rightarrow> 'a mole \<Rightarrow> int \<Rightarrow> callback option \<Rightarrow> (string \<rightharpoonup> string)
     \<Rightarrow> 'a OptResults \<Rightarrow> ('a, 'k) world
     \<Rightarrow> (error + 'a mole) \<times> string \<times> string \<times> 'a OptResults \<times> ('a, 'k) world" where
  "call_optimize optimize solver e_g mole maxsteps cb conv_params results w =
     optimize solver e_g mole maxsteps cb conv_params
       (results, w\<lparr>trace := trace w @ [Optimizer_call]\<rparr>)"

text \<open>
  The selection of the solver:
  \<^verbatim>\<open>
  if solver == "pyberny":
      pyscf_solver = berny_solver
  elif solver == "geometric":
      pyscf_solver = geometric_solver
  \<close>
  With any other string no assignment runs and the local variable stays unbound,
  which is \<open>None\<close> here.
\<close>

definition select_solver :: "string \<Rightarrow> pyscf_solver option" where
  "select_solver solver =
     (if solver = ''pyberny'' then Some berny_solver
      else if solver = ''geometric'' then Some geometric_solver
      else None)"

text \<open>
  \<^verbatim>\<open>ts_from_gfnff\<close> (lines 314 to 367). A path argument is \<open>None\<close> or a path; the
  test \<^verbatim>\<open>if path:\<close> is the test for \<open>Some\<close>.
\<close>

definition ts_from_gfnff ::
  "('a, 'a OptResults \<times> ('a, 'k) world) pyscf_optimize \<Rightarrow> ('a::{plus,times}, 'k) externals
     \<Rightarrow> element list \<Rightarrow> 'a array2d \<Rightarrow> string list \<Rightarrow> string list option
     \<Rightarrow> (string \<rightharpoonup> string list) option \<Rightarrow> 'a \<Rightarrow> 'a \<Rightarrow> int \<Rightarrow> callback option
     \<Rightarrow> (string \<rightharpoonup> string) option \<Rightarrow> string \<Rightarrow> path option \<Rightarrow> ('a, 'k) world
     \<Rightarrow> (error + 'a OptResults) \<times> ('a, 'k) world" where
  "ts_from_gfnff optimize ext elems coords topologies keywords xcontrol_keywords e_shift coupling
       maxsteps cb conv_params solver path w =
     (let conv_params' = (case conv_params of None \<Rightarrow> Map.empty | Some c \<Rightarrow> c)
      in case (case path of None \<Rightarrow> Inr (files w) | Some p \<Rightarrow> mkdir_exist_ok p (files w)) of
           Inl e \<Rightarrow> (Inl e, w)
         | Inr fs1 \<Rightarrow>
             (let w1 = w\<lparr>files := fs1\<rparr>;
                  keywords' = insert ''--gfnff'' (normalize_keywords (map_option set keywords));
                  results = OptResults_new
              in case get_pyscf_mole ext elems coords of
                   Inl e \<Rightarrow> (Inl e, w1)
                 | Inr mole \<Rightarrow>
                     (let e_g = e_g_partial ext topologies (Some keywords') xcontrol_keywords
                                  e_shift coupling path
                      in case select_solver solver of
                           None \<Rightarrow> (Inl (UnboundLocalError ''pyscf_solver''), w1)
                         | Some pyscf_solver \<Rightarrow>
                             (case call_optimize optimize pyscf_solver e_g mole maxsteps cb
                                     conv_params' results w1 of
                                (Inl e, out, err, results', w2) \<Rightarrow> (Inl e, w2)
                              | (Inr m, out, err, results', w2) \<Rightarrow>
                                  (Inr (results'\<lparr>stdout := out, stderr := err\<rparr>), w2)))))"

text \<open>\<^verbatim>\<open>ts_from_gfnff_python\<close> (lines 370 to 418).\<close>

definition ts_from_gfnff_python ::
  "('a, 'a OptResults \<times> ('a, 'k) world) pyscf_optimize \<Rightarrow> ('a::{plus,times}, 'k) externals
     \<Rightarrow> element list \<Rightarrow> 'a array2d \<Rightarrow> nat list \<Rightarrow> 'a \<Rightarrow> 'a \<Rightarrow> int \<Rightarrow> callback option
     \<Rightarrow> (string \<rightharpoonup> string) option \<Rightarrow> string \<Rightarrow> path option \<Rightarrow> ('a, 'k) world
     \<Rightarrow> (error + 'a OptResults) \<times> ('a, 'k) world" where
  "ts_from_gfnff_python optimize ext elems coords calculators e_shift coupling
       maxsteps cb conv_params solver path w =
     (let conv_params' = (case conv_params of None \<Rightarrow> Map.empty | Some c \<Rightarrow> c)
      in case (case path of
                 None \<Rightarrow> Inr (cwd ext, files w)
               | Some p \<Rightarrow> (case mkdir_exist_ok p (files w) of Inl e \<Rightarrow> Inl e | Inr fs1 \<Rightarrow> Inr (p, fs1))) of
           Inl e \<Rightarrow> (Inl e, w)
         | Inr (path', fs1) \<Rightarrow>
             (let w1 = w\<lparr>files := fs1\<rparr>;
                  results = OptResults_new
              in case get_pyscf_mole ext elems coords of
                   Inl e \<Rightarrow> (Inl e, w1)
                 | Inr mole \<Rightarrow>
                     (let e_g = e_g_partial_python ext calculators e_shift coupling (Some path')
                      in case select_solver solver of
                           None \<Rightarrow> (Inl (UnboundLocalError ''pyscf_solver''), w1)
                         | Some pyscf_solver \<Rightarrow>
                             (case call_optimize optimize pyscf_solver e_g mole maxsteps cb
                                     conv_params' results w1 of
                                (Inl e, out, err, results', w2) \<Rightarrow> (Inl e, w2)
                              | (Inr m, out, err, results', w2) \<Rightarrow>
                                  (Inr (results'\<lparr>stdout := out, stderr := err\<rparr>), w2)))))"

text \<open>
  \<^verbatim>\<open>ts_from_gfnff_ci\<close> (lines 421 to 474) is \<^verbatim>\<open>ts_from_gfnff\<close> with
  \<^verbatim>\<open>path.mkdir(exist_ok=True, parents=True)\<close>.
\<close>

definition ts_from_gfnff_ci ::
  "('a, 'a OptResults \<times> ('a, 'k) world) pyscf_optimize \<Rightarrow> ('a::{plus,times}, 'k) externals
     \<Rightarrow> element list \<Rightarrow> 'a array2d \<Rightarrow> string list \<Rightarrow> string list option
     \<Rightarrow> (string \<rightharpoonup> string list) option \<Rightarrow> 'a \<Rightarrow> 'a \<Rightarrow> int \<Rightarrow> callback option
     \<Rightarrow> (string \<rightharpoonup> string) option \<Rightarrow> string \<Rightarrow> path option \<Rightarrow> ('a, 'k) world
     \<Rightarrow> (error + 'a OptResults) \<times> ('a, 'k) world" where
  "ts_from_gfnff_ci optimize ext elems coords topologies keywords xcontrol_keywords e_shift coupling
       maxsteps cb conv_params solver path w =
     (let conv_params' = (case conv_params of None \<Rightarrow> Map.empty | Some c \<Rightarrow> c)
      in case (case path of None \<Rightarrow> Inr (files w) | Some p \<Rightarrow> mkdir_parents p (files w)) of
           Inl e \<Rightarrow> (Inl e, w)
         | Inr fs1 \<Rightarrow>
             (let w1 = w\<lparr>files := fs1\<rparr>;
                  keywords' = insert ''--gfnff'' (normalize_keywords (map_option set keywords));
                  results = OptResults_new
              in case get_pyscf_mole ext elems coords of
                   Inl e \<Rightarrow> (Inl e, w1)
                 | Inr mole \<Rightarrow>
                     (let e_g = e_g_partial ext topologies (Some keywords') xcontrol_keywords
                                  e_shift coupling path
                      in case select_solver solver of
                           None \<Rightarrow> (Inl (UnboundLocalError ''pyscf_solver''), w1)
                         | Some pyscf_solver \<Rightarrow>
                             (case call_optimize optimize pyscf_solver e_g mole maxsteps cb
                                     conv_params' results w1 of
                                (Inl e, out, err, results', w2) \<Rightarrow> (Inl e, w2)
                              | (Inr m, out, err, results', w2) \<Rightarrow>
                                  (Inr (results'\<lparr>stdout := out, stderr := err\<rparr>), w2)))))"

section \<open>The conical-intersection engine\<close>

text \<open>
  A gradient scanner holds its molecule, the atom list \<^verbatim>\<open>atmlst\<close> (unset until
  assigned) and the energy and gradient function it evaluates. A method handed to
  \<^verbatim>\<open>optimize_ci\<close> is of one of the three kinds the function tests for, in the order
  of the tests, or of none; the scanner it carries is the one the branch obtains
  (the method itself, \<^verbatim>\<open>method.as_scanner()\<close>, or
  \<^verbatim>\<open>method.nuc_grad_method().as_scanner()\<close>), and \<^verbatim>\<open>method.mol\<close> is that scanner's
  molecule.
\<close>

record ('a, 'k) GradScanner =
  scanner_mol :: "'a mole"
  atmlst :: "nat list option"
  scan :: "'a mole \<Rightarrow> ('a, 'k) world \<Rightarrow> (error + ('a \<times> 'a array2d)) \<times> ('a, 'k) world"

datatype ('a, 'k) gradient_method =
    Is_GradScanner "('a, 'k) GradScanner"
  | Is_GradientsMixin "('a, 'k) GradScanner"
  | Has_nuc_grad_method "('a, 'k) GradScanner"
  | No_gradients

text \<open>
  \<^verbatim>\<open>as_pyscf_method(mole, e_g)\<close> of PySCF builds an object that is neither a scanner
  nor a gradients object and has \<^verbatim>\<open>nuc_grad_method\<close>.
\<close>

definition as_pyscf_method ::
  "'a mole \<Rightarrow> ('a mole \<Rightarrow> ('a, 'k) world \<Rightarrow> (error + ('a \<times> 'a array2d)) \<times> ('a, 'k) world)
     \<Rightarrow> ('a, 'k) gradient_method" where
  "as_pyscf_method mole e_g = Has_nuc_grad_method \<lparr>scanner_mol = mole, atmlst = None, scan = e_g\<rparr>"

text \<open>\<^verbatim>\<open>np.where(mol.atom_charges() != 0)[0]\<close>: the positions of the non-zero charges.\<close>

definition nonzero_charges :: "'a mole \<Rightarrow> nat list" where
  "nonzero_charges m = filter (\<lambda>i. atom_charges m ! i \<noteq> 0) [0..<length (atom_charges m)]"

text \<open>The loop \<^verbatim>\<open>for method in methods\<close> that collects \<^verbatim>\<open>g_scanners\<close>.\<close>

fun g_scanners_loop ::
  "bool \<Rightarrow> ('a, 'k) gradient_method list \<Rightarrow> ('a, 'k) GradScanner list \<Rightarrow> error + ('a, 'k) GradScanner list" where
  "g_scanners_loop include_ghost [] g_scanners = Inr g_scanners"
| "g_scanners_loop include_ghost (m # ms) g_scanners =
     (case (case m of
              Is_GradScanner s \<Rightarrow> Inr s
            | Is_GradientsMixin s \<Rightarrow> Inr s
            | Has_nuc_grad_method s \<Rightarrow> Inr s
            | No_gradients \<Rightarrow> Inl NotImplementedError) of
        Inl e \<Rightarrow> Inl e
      | Inr g_scanner \<Rightarrow>
          (let g_scanner' = (if \<not> include_ghost
                             then g_scanner\<lparr>atmlst := Some (nonzero_charges (scanner_mol g_scanner))\<rparr>
                             else g_scanner)
           in g_scanners_loop include_ghost ms (g_scanners @ [g_scanner'])))"

text \<open>
  \<^verbatim>\<open>geometric_solver.PySCFEngine(g_scanner)\<close> and the \<^verbatim>\<open>ConicalIntersection\<close>
  engine of geomeTRIC, with the attributes \<^verbatim>\<open>optimize_ci\<close> reads or assigns. The
  attribute \<^verbatim>\<open>M\<close> of a PySCF engine is built from the scanner's molecule.
\<close>

record ('a, 'k) PySCFEngine =
  engine_scanner :: "('a, 'k) GradScanner"
  engine_M :: "'a mole"
  engine_callback :: "callback option"

definition PySCFEngine_new :: "('a, 'k) GradScanner \<Rightarrow> ('a, 'k) PySCFEngine" where
  "PySCFEngine_new g_scanner =
     \<lparr>engine_scanner = g_scanner, engine_M = scanner_mol g_scanner, engine_callback = None\<rparr>"

record ('a, 'k) ConicalIntersection =
  ci_M :: "'a mole"
  ci_engines :: "('a, 'k) PySCFEngine list"
  meci_sigma :: 'a
  meci_alpha :: 'a
  ci_maxsteps :: int
  ci_mol :: "'a mole"
  ci_assert_convergence :: bool

text \<open>
  \<^verbatim>\<open>geometric.optimize.run_optimizer(customengine=engine, input=tmpf,
  constraints=constraints, **kwargs)\<close> is a parameter: it acts on the engine and on the
  world, and raises or returns.
\<close>

type_synonym ('a, 'k) run_optimizer =
  "('a, 'k) ConicalIntersection \<Rightarrow> path \<Rightarrow> constraints option \<Rightarrow> (string \<rightharpoonup> string)
     \<Rightarrow> ('a, 'k) world \<Rightarrow> error option \<times> ('a, 'k) ConicalIntersection \<times> ('a, 'k) world"

definition call_run_optimizer ::
  "('a, 'k) run_optimizer \<Rightarrow> ('a, 'k) ConicalIntersection \<Rightarrow> path \<Rightarrow> constraints option
     \<Rightarrow> (string \<rightharpoonup> string) \<Rightarrow> ('a, 'k) world
     \<Rightarrow> error option \<times> ('a, 'k) ConicalIntersection \<times> ('a, 'k) world" where
  "call_run_optimizer run_optimizer engine tmpf cons kwargs w =
     run_optimizer engine tmpf cons kwargs (w\<lparr>trace := trace w @ [Optimizer_call]\<rparr>)"

definition logger_note :: "string \<Rightarrow> ('a, 'k) world \<Rightarrow> ('a, 'k) world" where
  "logger_note msg w = w\<lparr>trace := trace w @ [Logger_note msg]\<rparr>"

text \<open>
  The end of \<^verbatim>\<open>optimize_ci\<close>:
  \<^verbatim>\<open>
  if os.path.exists(f"{tmpf}_optim.xyz"):
      os.remove(f"{tmpf}_optim.xyz")
  if os.path.exists(f"{tmpf}.tmp"):
      shutil.rmtree(f"{tmpf}.tmp")
  \<close>
\<close>

definition remove_temporary_files :: "path \<Rightarrow> filesystem \<Rightarrow> error option \<times> filesystem" where
  "remove_temporary_files tmpf fs =
     (case (if path_exists fs (with_suffix tmpf ''_optim.xyz'')
            then os_remove (with_suffix tmpf ''_optim.xyz'') fs else Inr fs) of
        Inl e \<Rightarrow> (Some e, fs)
      | Inr fs1 \<Rightarrow>
          (case (if path_exists fs1 (with_suffix tmpf ''.tmp'')
                 then shutil_rmtree (with_suffix tmpf ''.tmp'') fs1 else Inr fs1) of
             Inl e \<Rightarrow> (Some e, fs1)
           | Inr fs2 \<Rightarrow> (None, fs2)))"

text \<open>
  Lines 585 to 608 of \<^verbatim>\<open>optimize_ci\<close>: the two PySCF engines, the callback on the
  first, the wrapper around both, the conical-intersection engine with its attributes,
  the copy of the first scanner's molecule, and the pinning of its symmetry
  (\<^verbatim>\<open>if engine.mol.symmetry: engine.mol.symmetry = engine.mol.topgroup\<close>).
\<close>

definition conical_intersection_engine ::
  "('a, 'k) GradScanner \<Rightarrow> ('a, 'k) GradScanner \<Rightarrow> callback option \<Rightarrow> int \<Rightarrow> 'a \<Rightarrow> 'a \<Rightarrow> bool
     \<Rightarrow> ('a, 'k) ConicalIntersection" where
  "conical_intersection_engine g_scanner_0 g_scanner_1 cb maxsteps alpha sigma assert_convergence =
     (let engine_1 = PySCFEngine_new g_scanner_0;
          engine_2 = PySCFEngine_new g_scanner_1;
          M = engine_M engine_1;
          engine_1' = engine_1\<lparr>engine_callback := cb\<rparr>;
          mol0 = scanner_mol g_scanner_0;
          mol1 = (if truthy (symmetry mol0)
                  then mol0\<lparr>symmetry := Symmetry_group (topgroup mol0)\<rparr>
                  else mol0)
      in \<lparr>ci_M = M, ci_engines = [engine_1', engine_2],
          meci_sigma = sigma, meci_alpha = alpha,
          ci_maxsteps = maxsteps, ci_mol = mol1,
          ci_assert_convergence = assert_convergence\<rparr>)"

text \<open>
  Lines 619 to 625: the removal of the temporary files and \<^verbatim>\<open>return conv, engine.mol\<close>.
\<close>

definition remove_and_return ::
  "path \<Rightarrow> bool \<Rightarrow> 'a mole \<Rightarrow> ('a, 'k) world \<Rightarrow> (error + (bool \<times> 'a mole)) \<times> ('a, 'k) world" where
  "remove_and_return tmpf conv mol w =
     (case remove_temporary_files tmpf (files w) of
        (Some e, fs1) \<Rightarrow> (Inl e, w\<lparr>files := fs1\<rparr>)
      | (None, fs1) \<Rightarrow> (Inr (conv, mol), w\<lparr>files := fs1\<rparr>))"

text \<open>
  \<^verbatim>\<open>optimize_ci\<close> (lines 558 to 625). The handler of the \<^verbatim>\<open>try\<close> statement names
  \<^verbatim>\<open>NotConvergedError\<close> only; any other exception of the optimizer leaves the
  function at once. The statements after the \<^verbatim>\<open>try\<close> statement run when its body or
  its handler has finished.
\<close>

definition optimize_ci ::
  "('a, 'k) run_optimizer \<Rightarrow> ('a, 'k) externals \<Rightarrow> ('a, 'k) gradient_method list \<Rightarrow> bool \<Rightarrow> bool
     \<Rightarrow> constraints option \<Rightarrow> callback option \<Rightarrow> int \<Rightarrow> 'a \<Rightarrow> 'a \<Rightarrow> (string \<rightharpoonup> string)
     \<Rightarrow> ('a, 'k) world \<Rightarrow> (error + (bool \<times> 'a mole)) \<times> ('a, 'k) world" where
  "optimize_ci run_optimizer ext methods assert_convergence include_ghost cons cb maxsteps
       alpha sigma kwargs w =
     (case g_scanners_loop include_ghost methods [] of
        Inl e \<Rightarrow> (Inl e, w)
      | Inr g_scanners \<Rightarrow>
          (case mktemp (lib_param_TMPDIR ext) (tempfile_names ext) (files w) of
             Inl e \<Rightarrow> (Inl e, w)
           | Inr tmpf \<Rightarrow>
               (case py_index g_scanners 0 of
                  Inl e \<Rightarrow> (Inl e, w)
                | Inr g_scanner_0 \<Rightarrow>
                    (case py_index g_scanners 1 of
                       Inl e \<Rightarrow> (Inl e, w)
                     | Inr g_scanner_1 \<Rightarrow>
                         (let engine = conical_intersection_engine g_scanner_0 g_scanner_1 cb maxsteps
                                         alpha sigma assert_convergence;
                              kwargs' = kwargs(''logIni'' \<mapsto> log_ini ext)
                          in case call_run_optimizer run_optimizer engine tmpf cons kwargs' w of
                               (Some (NotConvergedError msg), engine', w1) \<Rightarrow>
                                 remove_and_return tmpf False (ci_mol engine') (logger_note msg w1)
                             | (Some e, engine', w1) \<Rightarrow> (Inl e, w1)
                             | (None, engine', w1) \<Rightarrow>
                                 remove_and_return tmpf True (ci_mol engine') w1)))))"


section \<open>Example inputs\<close>

text \<open>
  Concrete stand-ins on which the theorems below are instantiated. Floats are integers
  here. The solver stand-in returns its inputs in reverse order; the \<^verbatim>\<open>xtb\<close>
  stand-in copies the staged topology to \<^verbatim>\<open>xtb.engrad\<close> and fails when no topology
  is staged; the parser stand-in reads the length of that file as energy; the
  calculator stand-in fails for the calculator whose internal state is \<open>0\<close> and
  otherwise returns its internal state as energy and its coordinates as gradient.
\<close>

definition example_externals :: "(int, nat) externals" where
  "example_externals =
     \<lparr>BOHR_TO_ANGSTROM = 2,
      evb_eigenvalues = (\<lambda>energies gradients coupling.
         Inr (rev energies, rev gradients, rev [0..<length energies])),
      run_xtb = (\<lambda>elems coords p keywords xc fs.
         case fs (p @ [''gfnff_topo'']) of
           Some (File t) \<Rightarrow> (None, fs(p @ [''xtb.engrad''] \<mapsto> File t))
         | _ \<Rightarrow> (Some (ExternalError ''xtb''), fs)),
      parse_engrad = (\<lambda>p fs.
         case fs p of
           Some (File t) \<Rightarrow> Inr (int (length t), [[int (length t)]])
         | _ \<Rightarrow> Inl FileNotFoundError),
      sp = (\<lambda>calc.
         if internal calc = 0 then (Inl (ExternalError ''sp''), calc)
         else (Inr (int (internal calc), calc_coordinates calc), calc)),
      convert_to_symbols = (\<lambda>es. Inr (map (\<lambda>e. ''H'') es)),
      convert_to_numbers = (\<lambda>ss. Inr (map (\<lambda>s. 1) ss)),
      Mole_build = (\<lambda>atoms spin.
         Inr \<lparr>atom_charges = map (\<lambda>a. 1) atoms, atom_coords = map snd atoms,
              symmetry = Symmetry_flag False, topgroup = ''C1''\<rparr>),
      cwd = [''home''],
      config_TMP_DIR = [''tmp''],
      lib_param_TMPDIR = [''tmp''],
      tempfile_names = [''t0'', ''t1'', ''t2''],
      log_ini = ''log.ini'',
      INCLUDE_GHOST = True,
      ASSERT_CONV = True\<rparr>"

definition example_world :: "(int, nat) world" where
  "example_world =
     \<lparr>files = [[''tmp''] \<mapsto> Dir, [''home''] \<mapsto> Dir],
      trace = [],
      calculator_store = (\<lambda>i. \<lparr>calc_coordinates = [], internal = i\<rparr>)\<rparr>"

definition example_mole :: "int mole" where
  "example_mole =
     \<lparr>atom_charges = [1, 1], atom_coords = [[0, 0, 0], [1, 0, 0]],
      symmetry = Symmetry_flag False, topgroup = ''C1''\<rparr>"

text \<open>
  Three stand-ins for \<^verbatim>\<open>geometric.optimize.run_optimizer\<close>. Each leaves the engine
  as it is. The first writes both temporary artifacts and returns; the second writes
  only the coordinate file and raises \<^verbatim>\<open>NotConvergedError\<close>; the third writes both
  artifacts and raises another exception, as a failing evaluator would.
\<close>

definition example_converging :: "(int, nat) run_optimizer" where
  "example_converging engine tmpf cons kwargs w =
     (None, engine,
      w\<lparr>files := (files w)(with_suffix tmpf ''_optim.xyz'' \<mapsto> File ''xyz'',
                            with_suffix tmpf ''.tmp'' \<mapsto> Dir,
                            with_suffix tmpf ''.tmp'' @ [''log''] \<mapsto> File ''log'')\<rparr>)"

definition example_not_converging :: "(int, nat) run_optimizer" where
  "example_not_converging engine tmpf cons kwargs w =
     (Some (NotConvergedError ''not converged''), engine,
      w\<lparr>files := (files w)(with_suffix tmpf ''_optim.xyz'' \<mapsto> File ''xyz'')\<rparr>)"

definition example_failing :: "(int, nat) run_optimizer" where
  "example_failing engine tmpf cons kwargs w =
     (Some (ExternalError ''evaluator''), engine,
      w\<lparr>files := (files w)(with_suffix tmpf ''_optim.xyz'' \<mapsto> File ''xyz'',
                            with_suffix tmpf ''.tmp'' \<mapsto> Dir,
                            with_suffix tmpf ''.tmp'' @ [''log''] \<mapsto> File ''log'')\<rparr>)"

text \<open>
  The two methods that \<^verbatim>\<open>ts_from_gfnff_ci_python\<close> builds from the example molecule
  and the calculators 5 and 7.
\<close>

definition example_methods :: "(int, nat) gradient_method list" where
  "example_methods =
     [as_pyscf_method example_mole
        (\<lambda>mol w. e_g_function_ci_python example_externals mol 5 0 (Some [''home'']) w),
      as_pyscf_method example_mole
        (\<lambda>mol w. e_g_function_ci_python example_externals mol 7 3 (Some [''home'']) w)]"

text \<open>The scanner that \<^verbatim>\<open>optimize_ci\<close> obtains from each of the example methods.\<close>

definition example_scanner :: "nat \<Rightarrow> int \<Rightarrow> (int, nat) GradScanner" where
  "example_scanner calculator e_shift =
     \<lparr>scanner_mol = example_mole, atmlst = None,
      scan = (\<lambda>mol w. e_g_function_ci_python example_externals mol calculator e_shift
                        (Some [''home'']) w)\<rparr>"

text \<open>
  A stand-in for the \<^verbatim>\<open>optimize\<close> of a PySCF solver: it evaluates the bound function
  once, at the molecule it is given, and returns that molecule.
\<close>

definition example_optimize :: "(int, int OptResults \<times> (int, nat) world) pyscf_optimize" where
  "example_optimize solver e_g mole maxsteps cb conv_params s =
     (case e_g mole s of
        (Inl e, s') \<Rightarrow> (Inl e, [], [], s')
      | (Inr x, s') \<Rightarrow> (Inr mole, ''converged'', [], s'))"

section \<open>Properties of EnginesWrapper\<close>

lemma deref_append_old: "a < length h \<Longrightarrow> deref (h @ [ob]) a = deref h a"
  by (simp add: deref_def nth_append)

lemma deref_append_new: "deref (h @ [ob]) (length h) = Some ob"
  by (simp add: deref_def)

lemma deref_Some_bound: "deref h a = Some ob \<Longrightarrow> a < length h"
  by (simp add: deref_def split: if_splits)

lemma elements_append_old: "a < length h \<Longrightarrow> elements (h @ [ob]) a = elements h a"
  by (simp add: elements_def deref_append_old)

lemma engines_append_new: "engines (h @ [Wrapper l]) (length h) = Inr l"
  by (simp add: engines_def deref_append_new)

text \<open>
  C8. Copying a wrapper shares the engine handles. For every store \<open>h\<close>, every wrapper
  \<open>w\<close> in it whose \<^verbatim>\<open>engines\<close> attribute is the sequence object \<open>l\<close>, and every
  memo: \<^verbatim>\<open>w.__deepcopy__(memo)\<close> returns a wrapper at an address that was not allocated
  before (so it differs from \<open>w\<close>); the store grows by exactly that one object and all
  earlier objects, the engines among them, are untouched (no engine is cloned); the new
  wrapper's \<^verbatim>\<open>engines\<close> attribute is the same sequence object \<open>l\<close>; indexing the copy
  gives, at every key, exactly what indexing \<open>w\<close> gives (the same engine address in
  range, the same \<^verbatim>\<open>IndexError\<close> out of range); the lengths agree; and the memo binds
  \<^verbatim>\<open>id(w)\<close> to the copy.
\<close>

theorem deepcopy_shares_engines:
  assumes w: "deref h w = Some (Wrapper l)"
    and l: "deref h l = Some (PyList es)"
  shows "\<exists>w' h'. EnginesWrapper_deepcopy h w memo = Inr (w', memo(w \<mapsto> w'), h')
           \<and> w' = length h \<and> w' \<noteq> w \<and> deref h w' = None
           \<and> h' = h @ [Wrapper l]
           \<and> (\<forall>a < length h. deref h' a = deref h a)
           \<and> engines h' w' = engines h w
           \<and> (\<forall>key. EnginesWrapper_getitem h' w' key = EnginesWrapper_getitem h w key)
           \<and> (\<forall>i < length es. EnginesWrapper_getitem h' w' (int i) = Inr (es ! i)
                               \<and> EnginesWrapper_getitem h w (int i) = Inr (es ! i))
           \<and> EnginesWrapper_len h' w' = Inr (length es)
           \<and> EnginesWrapper_len h w = Inr (length es)"
proof -
  have wb: "w < length h" and lb: "l < length h"
    using w l by (auto dest: deref_Some_bound)
  have eng: "engines h w = Inr l"
    using w by (simp add: engines_def)
  have el: "elements h l = Inr es"
    using l by (simp add: elements_def)
  have el': "elements (h @ [Wrapper l]) l = Inr es"
    using lb el by (simp add: elements_append_old)
  have copy: "EnginesWrapper_deepcopy h w memo
                = Inr (length h, memo(w \<mapsto> length h), h @ [Wrapper l])"
    by (simp add: EnginesWrapper_deepcopy_def eng EnginesWrapper_init_def alloc_def)
  have fresh: "deref h (length h) = None"
    by (simp add: deref_def)
  have get: "EnginesWrapper_getitem (h @ [Wrapper l]) (length h) key
               = EnginesWrapper_getitem h w key" for key
    by (simp add: EnginesWrapper_getitem_def engines_append_new eng el el')
  have geti: "EnginesWrapper_getitem h w (int i) = Inr (es ! i)" if "i < length es" for i
    using that by (simp add: EnginesWrapper_getitem_def eng el py_index_def)
  have len: "EnginesWrapper_len h w = Inr (length es)"
    by (simp add: EnginesWrapper_len_def eng el)
  have len': "EnginesWrapper_len (h @ [Wrapper l]) (length h) = Inr (length es)"
    by (simp add: EnginesWrapper_len_def engines_append_new el')
  show ?thesis
    using wb copy fresh get geti len len'
    by (simp add: deref_append_old engines_append_new eng)
qed

text \<open>
  The store of \<^verbatim>\<open>optimize_ci\<close> after \<^verbatim>\<open>EnginesWrapper([engine_1, engine_2])\<close>: two
  engines at addresses 0 and 1, the list at 2, the wrapper at 3. Its copy is the new
  object at address 4 and indexes the same two engine objects.
\<close>

theorem deepcopy_shares_engines_witness:
  "deref [Engine (10::nat), Engine 20, PyList [0, 1], Wrapper 2] 3 = Some (Wrapper 2)
   \<and> deref [Engine (10::nat), Engine 20, PyList [0, 1], Wrapper 2] 2 = Some (PyList [0, 1])
   \<and> EnginesWrapper_deepcopy [Engine (10::nat), Engine 20, PyList [0, 1], Wrapper 2] 3 Map.empty
       = Inr (4, [3 \<mapsto> 4], [Engine 10, Engine 20, PyList [0, 1], Wrapper 2, Wrapper 2])
   \<and> EnginesWrapper_getitem [Engine (10::nat), Engine 20, PyList [0, 1], Wrapper 2, Wrapper 2] 4 1
       = EnginesWrapper_getitem [Engine (10::nat), Engine 20, PyList [0, 1], Wrapper 2] 3 1"
proof -
  let ?H = "[Engine (10::nat), Engine 20, PyList [0, 1], Wrapper 2]"
  have w: "deref ?H 3 = Some (Wrapper 2)"
    by (simp add: deref_def)
  have l: "deref ?H 2 = Some (PyList [0, 1])"
    by (simp add: deref_def)
  from deepcopy_shares_engines [OF w l, of Map.empty]
  obtain w' h' where
    c: "EnginesWrapper_deepcopy ?H 3 Map.empty = Inr (w', [3 \<mapsto> w'], h')"
    and w': "w' = length ?H"
    and h': "h' = ?H @ [Wrapper 2]"
    and g: "\<forall>key. EnginesWrapper_getitem h' w' key = EnginesWrapper_getitem ?H 3 key"
    by blast
  have len: "length ?H = 4" by simp
  have w4: "w' = 4" using w' by (simp only: len)
  have h4: "h' = [Engine 10, Engine 20, PyList [0, 1], Wrapper 2, Wrapper 2]"
    using h' by (simp only: append.simps)
  from g have g1: "EnginesWrapper_getitem h' w' 1 = EnginesWrapper_getitem ?H 3 1"
    by blast
  show ?thesis
    using w l c g1 unfolding w4 h4 by (intro conjI)
qed

section \<open>Properties of the surface bridges\<close>

lemma shift_last_Nil: "shift_last [] s = Inl IndexError"
  by (simp add: shift_last_def py_index_def)

lemma shift_last_eq: "es \<noteq> [] \<Longrightarrow> shift_last es s = Inr (butlast es @ [last es + s])"
proof -
  assume ne: "es \<noteq> []"
  then have idx: "py_index es (- 1) = Inr (last es)"
    by (cases es rule: rev_cases) (auto simp: py_index_def Let_def nat_add_distrib nth_append)
  have upd: "es[length es - Suc 0 := x] = butlast es @ [x]" for x
    using ne by (cases es rule: rev_cases) auto
  show ?thesis
    by (simp add: shift_last_def idx upd)
qed

lemma shift_last_Inr_iff:
  "shift_last es s = Inr es' \<longleftrightarrow> es \<noteq> [] \<and> es' = butlast es @ [last es + s]"
  by (cases "es = []") (auto simp: shift_last_Nil shift_last_eq)

lemma return_state_1_Inr_iff:
  "return_state_1 ea ga = Inr (e, g) \<longleftrightarrow> 1 < length ea \<and> 1 < length ga \<and> e = ea ! 1 \<and> g = ga ! 1"
  by (auto simp: return_state_1_def py_index_def split: sum.splits if_splits)

lemma call_sp_trace:
  "call_sp ext c w = (r, w') \<Longrightarrow>
     trace w' = trace w @ [Evaluator_call (calc_coordinates (calculator_store w c))] \<and> files w' = files w"
  by (auto simp: call_sp_def Let_def split: prod.splits)

lemma calculators_loop_trace:
  "calculators_loop ext coords cs es gs w = (r, w') \<Longrightarrow>
     \<exists>k \<le> length cs. trace w' = trace w @ replicate k (Evaluator_call coords) \<and> files w' = files w"
proof (induction cs arbitrary: es gs w)
  case Nil
  then show ?case by simp
next
  case (Cons c cs)
  let ?w1 = "w\<lparr>calculator_store :=
                   (calculator_store w)(c := (calculator_store w c)\<lparr>calc_coordinates := coords\<rparr>)\<rparr>"
  obtain r2 w2 where sp: "call_sp ext c ?w1 = (r2, w2)" by (cases "call_sp ext c ?w1")
  from call_sp_trace [OF sp]
  have t2: "trace w2 = trace w @ [Evaluator_call coords]" and f2: "files w2 = files w"
    by simp_all
  show ?case
  proof (cases r2)
    case (Inl e)
    with Cons.prems sp have "w' = w2" by (simp add: Let_def)
    with t2 f2 show ?thesis by (intro exI [of _ 1]) simp
  next
    case (Inr pr)
    obtain energy gradient where pr: "pr = (energy, gradient)" by (cases pr)
    with Cons.prems sp Inr
    have "calculators_loop ext coords cs (es @ [energy]) (gs @ [gradient]) w2 = (r, w')"
      by (simp add: Let_def)
    from Cons.IH [OF this] obtain k where
      k: "k \<le> length cs" "trace w' = trace w2 @ replicate k (Evaluator_call coords)" "files w' = files w2"
      by blast
    with t2 f2 show ?thesis
      by (intro exI [of _ "Suc k"]) (simp add: replicate_app_Cons_same)
  qed
qed

lemma calculators_loop_Inr:
  "calculators_loop ext coords cs es gs w = (Inr (es', gs'), w') \<Longrightarrow>
     trace w' = trace w @ replicate (length cs) (Evaluator_call coords)
     \<and> length es' = length es + length cs \<and> length gs' = length gs + length cs
     \<and> take (length es) es' = es \<and> take (length gs) gs' = gs"
proof (induction cs arbitrary: es gs w)
  case Nil
  then show ?case by simp
next
  case (Cons c cs)
  let ?w1 = "w\<lparr>calculator_store :=
                   (calculator_store w)(c := (calculator_store w c)\<lparr>calc_coordinates := coords\<rparr>)\<rparr>"
  obtain r2 w2 where sp: "call_sp ext c ?w1 = (r2, w2)" by (cases "call_sp ext c ?w1")
  from call_sp_trace [OF sp]
  have t2: "trace w2 = trace w @ [Evaluator_call coords]"
    by simp
  show ?case
  proof (cases r2)
    case (Inl e)
    with Cons.prems sp show ?thesis by (simp add: Let_def)
  next
    case (Inr pr)
    obtain energy gradient where pr: "pr = (energy, gradient)" by (cases pr)
    with Cons.prems sp Inr
    have "calculators_loop ext coords cs (es @ [energy]) (gs @ [gradient]) w2 = (Inr (es', gs'), w')"
      by (simp add: Let_def)
    from Cons.IH [OF this] t2 show ?thesis
      by (auto simp: replicate_app_Cons_same dest: arg_cong [where f = "take (length es)"]
                                                  arg_cong [where f = "take (length gs)"])
  qed
qed

lemma call_evb_eigenvalues_eq:
  "call_evb_eigenvalues ext es gs c w = (r, w') \<longleftrightarrow>
     r = evb_eigenvalues ext es gs c \<and> w' = w\<lparr>trace := trace w @ [Solver_call es gs c]\<rparr>"
  by (auto simp: call_evb_eigenvalues_def)

text \<open>What an invocation of the Python bridge does, by the outcome of its loop.\<close>

lemma e_g_function_python_loop_failed:
  assumes "calculators_loop ext (times_scalar (atom_coords mol) (BOHR_TO_ANGSTROM ext)) cs [] [] w = (Inl e, w1)"
  shows "e_g_function_python ext mol cs results e_shift coupling path w = (Inl e, results, w1)"
  using assms by (simp add: e_g_function_python_def)

lemma e_g_function_python_no_state:
  assumes "calculators_loop ext (times_scalar (atom_coords mol) (BOHR_TO_ANGSTROM ext)) cs [] [] w = (Inr ([], gs), w1)"
  shows "e_g_function_python ext mol cs results e_shift coupling path w = (Inl IndexError, results, w1)"
  using assms by (simp add: e_g_function_python_def shift_last_Nil)

lemma e_g_function_python_solver_failed:
  assumes "calculators_loop ext (times_scalar (atom_coords mol) (BOHR_TO_ANGSTROM ext)) cs [] [] w = (Inr (es, gs), w1)"
    and "es \<noteq> []"
    and "evb_eigenvalues ext (butlast es @ [last es + e_shift]) gs coupling = Inl e"
  shows "e_g_function_python ext mol cs results e_shift coupling path w =
           (Inl e, results,
            w1\<lparr>trace := trace w1 @ [Solver_call (butlast es @ [last es + e_shift]) gs coupling]\<rparr>)"
  using assms by (simp add: e_g_function_python_def shift_last_eq call_evb_eigenvalues_def)

lemma e_g_function_python_stored:
  assumes "calculators_loop ext (times_scalar (atom_coords mol) (BOHR_TO_ANGSTROM ext)) cs [] [] w = (Inr (es, gs), w1)"
    and "es \<noteq> []"
    and "evb_eigenvalues ext (butlast es @ [last es + e_shift]) gs coupling = Inr (es_ad, gs_ad, inds)"
  shows "e_g_function_python ext mol cs results e_shift coupling path w =
           (return_state_1 es_ad gs_ad,
            store_results (times_scalar (atom_coords mol) (BOHR_TO_ANGSTROM ext))
              (butlast es @ [last es + e_shift]) es_ad gs gs_ad inds results,
            w1\<lparr>trace := trace w1 @ [Solver_call (butlast es @ [last es + e_shift]) gs coupling]\<rparr>)"
  using assms by (simp add: e_g_function_python_def shift_last_eq call_evb_eigenvalues_def)

lemma call_run_xtb_trace:
  "call_run_xtb ext elems coords p kws xc w = (r, w') \<Longrightarrow>
     trace w' = trace w @ [Evaluator_call coords]
     \<and> files w' = snd (run_xtb ext elems coords p kws xc (files w))
     \<and> calculator_store w' = calculator_store w"
  by (auto simp: call_run_xtb_def Let_def split: prod.splits)

lemma xtb_loop_trace:
  "xtb_loop ext elems coords kws xc tps es gs w = (r, w') \<Longrightarrow>
     \<exists>k \<le> length tps. trace w' = trace w @ replicate k (Evaluator_call coords)"
proof (induction tps arbitrary: es gs w)
  case Nil
  then show ?case by simp
next
  case (Cons tp tps)
  obtain topology xtb_path where tp: "tp = (topology, xtb_path)" by (cases tp)
  obtain r1 fs1 where st: "stage_topology topology xtb_path (files w) = (r1, fs1)"
    by (cases "stage_topology topology xtb_path (files w)")
  show ?case
  proof (cases r1)
    case (Some e)
    with Cons.prems tp st have "w' = w\<lparr>files := fs1\<rparr>" by simp
    then show ?thesis by (intro exI [of _ 0]) simp
  next
    case None
    obtain r2 w2 where run: "call_run_xtb ext elems coords xtb_path kws xc (w\<lparr>files := fs1\<rparr>) = (r2, w2)"
      by (cases "call_run_xtb ext elems coords xtb_path kws xc (w\<lparr>files := fs1\<rparr>)")
    from call_run_xtb_trace [OF run]
    have t2: "trace w2 = trace w @ [Evaluator_call coords]" by simp
    show ?thesis
    proof (cases r2)
      case (Some e)
      with Cons.prems tp st None run have "w' = w2" by simp
      with t2 show ?thesis by (intro exI [of _ 1]) simp
    next
      case r2None: None
      show ?thesis
      proof (cases "parse_engrad ext (xtb_path @ [''xtb.engrad'']) (files w2)")
        case (Inl e)
        with Cons.prems tp st None run r2None have "w' = w2" by simp
        with t2 show ?thesis by (intro exI [of _ 1]) simp
      next
        case (Inr pr)
        obtain energy gradient where pr: "pr = (energy, gradient)" by (cases pr)
        with Cons.prems tp st None run r2None Inr
        have "xtb_loop ext elems coords kws xc tps (es @ [energy]) (gs @ [gradient]) w2 = (r, w')"
          by simp
        from Cons.IH [OF this] obtain k where
          "k \<le> length tps" "trace w' = trace w2 @ replicate k (Evaluator_call coords)"
          by blast
        with t2 show ?thesis
          by (intro exI [of _ "Suc k"]) (simp add: replicate_app_Cons_same)
      qed
    qed
  qed
qed

lemma xtb_loop_Inr:
  "xtb_loop ext elems coords kws xc tps es gs w = (Inr (es', gs'), w') \<Longrightarrow>
     trace w' = trace w @ replicate (length tps) (Evaluator_call coords)
     \<and> length es' = length es + length tps \<and> length gs' = length gs + length tps"
proof (induction tps arbitrary: es gs w)
  case Nil
  then show ?case by simp
next
  case (Cons tp tps)
  obtain topology xtb_path where tp: "tp = (topology, xtb_path)" by (cases tp)
  obtain r1 fs1 where st: "stage_topology topology xtb_path (files w) = (r1, fs1)"
    by (cases "stage_topology topology xtb_path (files w)")
  obtain r2 w2 where run: "call_run_xtb ext elems coords xtb_path kws xc (w\<lparr>files := fs1\<rparr>) = (r2, w2)"
    by (cases "call_run_xtb ext elems coords xtb_path kws xc (w\<lparr>files := fs1\<rparr>)")
  from call_run_xtb_trace [OF run]
  have t2: "trace w2 = trace w @ [Evaluator_call coords]" by simp
  from Cons.prems tp st run obtain energy gradient where
    "r1 = None" "r2 = None"
    "xtb_loop ext elems coords kws xc tps (es @ [energy]) (gs @ [gradient]) w2 = (Inr (es', gs'), w')"
    by (auto split: option.splits sum.splits prod.splits)
  from Cons.IH [OF this(3)] t2 show ?case
    by (simp add: replicate_app_Cons_same)
qed

lemma make_temp_dirs_length:
  "make_temp_dirs ext n fs = (Inr ps, fs') \<Longrightarrow> length ps = n"
  by (induction n arbitrary: fs ps fs') (auto split: sum.splits prod.splits)

lemma working_directories_length:
  "working_directories ext path n fs = (Inr (xtb_paths, temp_dirs, cleanup), fs') \<Longrightarrow>
     length xtb_paths = n"
  by (auto simp: working_directories_def make_temp_dirs_length split: option.splits sum.splits prod.splits)

lemma evaluate_with_xtb_trace:
  assumes "evaluate_with_xtb ext mol topologies kws xc path w = (r, w')"
  shows "\<exists>k \<le> length topologies.
           trace w' = trace w @ replicate k (Evaluator_call (times_scalar (atom_coords mol) (BOHR_TO_ANGSTROM ext)))"
proof (cases "working_directories ext path (length topologies) (files w)")
  case (Pair r0 fs0)
  show ?thesis
  proof (cases r0)
    case (Inl e)
    with assms Pair have "w' = w\<lparr>files := fs0\<rparr>"
      by (simp add: evaluate_with_xtb_def)
    then show ?thesis by (intro exI [of _ 0]) simp
  next
    case (Inr tr)
    obtain xtb_paths temp_dirs cleanup where tr: "tr = (xtb_paths, temp_dirs, cleanup)"
      by (cases tr)
    let ?coords = "times_scalar (atom_coords mol) (BOHR_TO_ANGSTROM ext)"
    obtain r1 w1 where loop: "xtb_loop ext (atom_charges mol) ?coords
         (insert ''--grad'' (normalize_keywords kws)) xc (zip topologies xtb_paths) [] []
         (w\<lparr>files := fs0\<rparr>) = (r1, w1)"
      by (cases "xtb_loop ext (atom_charges mol) ?coords
         (insert ''--grad'' (normalize_keywords kws)) xc (zip topologies xtb_paths) [] []
         (w\<lparr>files := fs0\<rparr>)")
    from assms Pair Inr tr loop have "w' = w1"
      by (auto simp: evaluate_with_xtb_def Let_def split: sum.splits prod.splits)
    moreover from xtb_loop_trace [OF loop] obtain k where
      "k \<le> length (zip topologies xtb_paths)" "trace w1 = trace w @ replicate k (Evaluator_call ?coords)"
      by auto
    ultimately show ?thesis by (intro exI [of _ k]) simp
  qed
qed

lemma evaluate_with_xtb_Inr:
  assumes "evaluate_with_xtb ext mol topologies kws xc path w
             = (Inr (coords, es, gs, temp_dirs, cleanup), w')"
  shows "coords = times_scalar (atom_coords mol) (BOHR_TO_ANGSTROM ext)
         \<and> trace w' = trace w @ replicate (length topologies) (Evaluator_call coords)
         \<and> length es = length topologies \<and> length gs = length topologies"
proof -
  let ?coords = "times_scalar (atom_coords mol) (BOHR_TO_ANGSTROM ext)"
  from assms obtain xtb_paths fs0 where
    wd: "working_directories ext path (length topologies) (files w)
           = (Inr (xtb_paths, temp_dirs, cleanup), fs0)"
    and loop: "xtb_loop ext (atom_charges mol) ?coords
         (insert ''--grad'' (normalize_keywords kws)) xc (zip topologies xtb_paths) [] []
         (w\<lparr>files := fs0\<rparr>) = (Inr (es, gs), w')"
    and c: "coords = ?coords"
    by (auto simp: evaluate_with_xtb_def Let_def split: sum.splits prod.splits)
  from working_directories_length [OF wd] have "length (zip topologies xtb_paths) = length topologies"
    by simp
  with xtb_loop_Inr [OF loop] c show ?thesis by simp
qed

lemma e_g_function_evaluation_failed:
  assumes "evaluate_with_xtb ext mol topologies kws xc path w = (Inl e, w1)"
  shows "e_g_function ext mol topologies results kws xc e_shift coupling path w
           = (Inl e, results, w1)"
  using assms by (simp add: e_g_function_def)

lemma e_g_function_no_state:
  assumes "evaluate_with_xtb ext mol topologies kws xc path w
             = (Inr (coords, [], gs, temp_dirs, cleanup), w1)"
  shows "e_g_function ext mol topologies results kws xc e_shift coupling path w
           = (Inl IndexError, results, w1)"
  using assms by (simp add: e_g_function_def shift_last_Nil)

lemma e_g_function_solver_failed:
  assumes "evaluate_with_xtb ext mol topologies kws xc path w
             = (Inr (coords, es, gs, temp_dirs, cleanup), w1)"
    and "es \<noteq> []"
    and "evb_eigenvalues ext (butlast es @ [last es + e_shift]) gs coupling = Inl e"
  shows "e_g_function ext mol topologies results kws xc e_shift coupling path w =
           (Inl e, results,
            w1\<lparr>trace := trace w1 @ [Solver_call (butlast es @ [last es + e_shift]) gs coupling]\<rparr>)"
  using assms by (simp add: e_g_function_def shift_last_eq call_evb_eigenvalues_def)

lemma e_g_function_stored:
  assumes "evaluate_with_xtb ext mol topologies kws xc path w
             = (Inr (coords, es, gs, temp_dirs, cleanup), w1)"
    and "es \<noteq> []"
    and "evb_eigenvalues ext (butlast es @ [last es + e_shift]) gs coupling = Inr (es_ad, gs_ad, inds)"
  shows "e_g_function ext mol topologies results kws xc e_shift coupling path w =
           (return_state_1 es_ad gs_ad,
            store_results coords (butlast es @ [last es + e_shift]) es_ad gs gs_ad inds results,
            w1\<lparr>trace := trace w1 @ [Solver_call (butlast es @ [last es + e_shift]) gs coupling],
               files := (if cleanup then fold TemporaryDirectory_cleanup temp_dirs (files w1)
                         else files w1)\<rparr>)"
  using assms by (simp add: e_g_function_def shift_last_eq call_evb_eigenvalues_def)

lemma e_g_function_python_cases:
  fixes ext :: "('a::{plus,times}, 'k) externals"
  shows
  "(\<exists>e w1. calculators_loop ext (times_scalar (atom_coords mol) (BOHR_TO_ANGSTROM ext)) cs [] [] w = (Inl e, w1)
        \<and> e_g_function_python ext mol cs results e_shift coupling path w = (Inl e, results, w1))
   \<or> (\<exists>gs w1. calculators_loop ext (times_scalar (atom_coords mol) (BOHR_TO_ANGSTROM ext)) cs [] [] w = (Inr ([], gs), w1)
        \<and> e_g_function_python ext mol cs results e_shift coupling path w = (Inl IndexError, results, w1))
   \<or> (\<exists>es gs w1 e. calculators_loop ext (times_scalar (atom_coords mol) (BOHR_TO_ANGSTROM ext)) cs [] [] w = (Inr (es, gs), w1) \<and> es \<noteq> []
        \<and> evb_eigenvalues ext (butlast es @ [last es + e_shift]) gs coupling = Inl e
        \<and> e_g_function_python ext mol cs results e_shift coupling path w =
            (Inl e, results,
             w1\<lparr>trace := trace w1 @ [Solver_call (butlast es @ [last es + e_shift]) gs coupling]\<rparr>))
   \<or> (\<exists>es gs w1 es_ad gs_ad inds. calculators_loop ext (times_scalar (atom_coords mol) (BOHR_TO_ANGSTROM ext)) cs [] [] w = (Inr (es, gs), w1) \<and> es \<noteq> []
        \<and> evb_eigenvalues ext (butlast es @ [last es + e_shift]) gs coupling = Inr (es_ad, gs_ad, inds)
        \<and> e_g_function_python ext mol cs results e_shift coupling path w =
            (return_state_1 es_ad gs_ad,
             store_results (times_scalar (atom_coords mol) (BOHR_TO_ANGSTROM ext)) (butlast es @ [last es + e_shift]) es_ad gs gs_ad inds results,
             w1\<lparr>trace := trace w1 @ [Solver_call (butlast es @ [last es + e_shift]) gs coupling]\<rparr>))"
proof (cases "calculators_loop ext (times_scalar (atom_coords mol) (BOHR_TO_ANGSTROM ext)) cs [] [] w")
  case (Pair r w1)
  show ?thesis
  proof (cases r)
    case (Inl e)
    with Pair show ?thesis
      by (auto dest: e_g_function_python_loop_failed)
  next
    case (Inr pr)
    obtain es gs where pr: "pr = (es, gs)" by (cases pr)
    show ?thesis
    proof (cases "es = []")
      case True
      with Pair Inr pr show ?thesis
        by (auto dest: e_g_function_python_no_state)
    next
      case False
      show ?thesis
      proof (cases "evb_eigenvalues ext (butlast es @ [last es + e_shift]) gs coupling")
        case (Inl e)
        with Pair Inr pr False show ?thesis
                  by (auto dest: e_g_function_python_solver_failed [where results = results and path = path])
      next
        case evb: (Inr tr)
        obtain es_ad gs_ad inds where "tr = (es_ad, gs_ad, inds)" by (cases tr)
        with Pair Inr pr False evb show ?thesis
                  by (auto dest: e_g_function_python_stored [where results = results and path = path])
      qed
    qed
  qed
qed

lemma e_g_function_cases:
  fixes ext :: "('a::{plus,times}, 'k) externals"
  shows
  "(\<exists>e w1. evaluate_with_xtb ext mol topologies kws xc path w = (Inl e, w1)
        \<and> e_g_function ext mol topologies results kws xc e_shift coupling path w = (Inl e, results, w1))
   \<or> (\<exists>coords gs td cl w1. evaluate_with_xtb ext mol topologies kws xc path w = (Inr (coords, [], gs, td, cl), w1)
        \<and> e_g_function ext mol topologies results kws xc e_shift coupling path w = (Inl IndexError, results, w1))
   \<or> (\<exists>coords es gs td cl w1 e. evaluate_with_xtb ext mol topologies kws xc path w = (Inr (coords, es, gs, td, cl), w1)
        \<and> es \<noteq> []
        \<and> evb_eigenvalues ext (butlast es @ [last es + e_shift]) gs coupling = Inl e
        \<and> e_g_function ext mol topologies results kws xc e_shift coupling path w =
            (Inl e, results,
             w1\<lparr>trace := trace w1 @ [Solver_call (butlast es @ [last es + e_shift]) gs coupling]\<rparr>))
   \<or> (\<exists>coords es gs td cl w1 es_ad gs_ad inds.
          evaluate_with_xtb ext mol topologies kws xc path w = (Inr (coords, es, gs, td, cl), w1)
        \<and> es \<noteq> []
        \<and> evb_eigenvalues ext (butlast es @ [last es + e_shift]) gs coupling = Inr (es_ad, gs_ad, inds)
        \<and> e_g_function ext mol topologies results kws xc e_shift coupling path w =
            (return_state_1 es_ad gs_ad,
             store_results coords (butlast es @ [last es + e_shift]) es_ad gs gs_ad inds results,
             w1\<lparr>trace := trace w1 @ [Solver_call (butlast es @ [last es + e_shift]) gs coupling],
                files := (if cl then fold TemporaryDirectory_cleanup td (files w1) else files w1)\<rparr>))"
proof (cases "evaluate_with_xtb ext mol topologies kws xc path w")
  case (Pair r w1)
  show ?thesis
  proof (cases r)
    case (Inl e)
    with Pair show ?thesis
      by (auto dest: e_g_function_evaluation_failed)
  next
    case (Inr pr)
    obtain coords es gs td cl where pr: "pr = (coords, es, gs, td, cl)" by (cases pr)
    show ?thesis
    proof (cases "es = []")
      case True
      with Pair Inr pr show ?thesis
        by (auto dest: e_g_function_no_state)
    next
      case False
      show ?thesis
      proof (cases "evb_eigenvalues ext (butlast es @ [last es + e_shift]) gs coupling")
        case (Inl e)
        with Pair Inr pr False show ?thesis
          by (auto dest: e_g_function_solver_failed [where results = results])
      next
        case evb: (Inr tr)
        obtain es_ad gs_ad inds where "tr = (es_ad, gs_ad, inds)" by (cases tr)
        with Pair Inr pr False evb show ?thesis
          by (auto dest: e_g_function_stored [where results = results])
      qed
    qed
  qed
qed

text \<open>
  The events one invocation adds to the trace: some evaluator calls, all with the
  converted coordinates, and then, when every evaluator has answered and there is at
  least one state, one solver call with the shifted energies.
\<close>

lemma e_g_function_python_events:
  fixes ext :: "('a::{plus,times}, 'k) externals"
  shows
  "(\<exists>k \<le> length cs.
       trace (snd (snd (e_g_function_python ext mol cs results e_shift coupling path w)))
         = trace w @ replicate k (Evaluator_call (times_scalar (atom_coords mol) (BOHR_TO_ANGSTROM ext))))
   \<or> (\<exists>es gs w1.
         calculators_loop ext (times_scalar (atom_coords mol) (BOHR_TO_ANGSTROM ext)) cs [] [] w
           = (Inr (es, gs), w1)
       \<and> es \<noteq> []
       \<and> trace (snd (snd (e_g_function_python ext mol cs results e_shift coupling path w)))
           = trace w @ replicate (length cs) (Evaluator_call (times_scalar (atom_coords mol) (BOHR_TO_ANGSTROM ext)))
               @ [Solver_call (butlast es @ [last es + e_shift]) gs coupling])"
  using e_g_function_python_cases [where ext = ext and mol = mol and cs = cs and w = w
      and results = results and e_shift = e_shift and coupling = coupling and path = path]
proof (elim disjE exE conjE)
  fix e w1
  assume l: "calculators_loop ext (times_scalar (atom_coords mol) (BOHR_TO_ANGSTROM ext)) cs [] [] w = (Inl e, w1)"
    and f: "e_g_function_python ext mol cs results e_shift coupling path w = (Inl e, results, w1)"
  from calculators_loop_trace [OF l] f show ?thesis by auto
next
  fix gs w1
  assume l: "calculators_loop ext (times_scalar (atom_coords mol) (BOHR_TO_ANGSTROM ext)) cs [] [] w = (Inr ([], gs), w1)"
    and f: "e_g_function_python ext mol cs results e_shift coupling path w = (Inl IndexError, results, w1)"
  from calculators_loop_trace [OF l] f show ?thesis by auto
next
  fix es gs w1 e
  assume l: "calculators_loop ext (times_scalar (atom_coords mol) (BOHR_TO_ANGSTROM ext)) cs [] [] w = (Inr (es, gs), w1)"
    and ne: "es \<noteq> []"
    and f: "e_g_function_python ext mol cs results e_shift coupling path w =
            (Inl e, results,
             w1\<lparr>trace := trace w1 @ [Solver_call (butlast es @ [last es + e_shift]) gs coupling]\<rparr>)"
  from calculators_loop_Inr [OF l] f l ne show ?thesis by auto
next
  fix es gs w1 es_ad gs_ad inds
  assume l: "calculators_loop ext (times_scalar (atom_coords mol) (BOHR_TO_ANGSTROM ext)) cs [] [] w = (Inr (es, gs), w1)"
    and ne: "es \<noteq> []"
    and f: "e_g_function_python ext mol cs results e_shift coupling path w =
            (return_state_1 es_ad gs_ad,
             store_results (times_scalar (atom_coords mol) (BOHR_TO_ANGSTROM ext))
               (butlast es @ [last es + e_shift]) es_ad gs gs_ad inds results,
             w1\<lparr>trace := trace w1 @ [Solver_call (butlast es @ [last es + e_shift]) gs coupling]\<rparr>)"
  from calculators_loop_Inr [OF l] f l ne show ?thesis by auto
qed

lemma e_g_function_events:
  fixes ext :: "('a::{plus,times}, 'k) externals"
  shows
  "(\<exists>k \<le> length topologies.
       trace (snd (snd (e_g_function ext mol topologies results kws xc e_shift coupling path w)))
         = trace w @ replicate k (Evaluator_call (times_scalar (atom_coords mol) (BOHR_TO_ANGSTROM ext))))
   \<or> (\<exists>coords es gs td cl w1.
         evaluate_with_xtb ext mol topologies kws xc path w = (Inr (coords, es, gs, td, cl), w1)
       \<and> es \<noteq> []
       \<and> trace (snd (snd (e_g_function ext mol topologies results kws xc e_shift coupling path w)))
           = trace w @ replicate (length topologies) (Evaluator_call (times_scalar (atom_coords mol) (BOHR_TO_ANGSTROM ext)))
               @ [Solver_call (butlast es @ [last es + e_shift]) gs coupling])"
  using e_g_function_cases [where ext = ext and mol = mol and topologies = topologies and kws = kws
      and xc = xc and path = path and w = w and results = results and e_shift = e_shift
      and coupling = coupling]
proof (elim disjE exE conjE)
  fix e w1
  assume l: "evaluate_with_xtb ext mol topologies kws xc path w = (Inl e, w1)"
    and f: "e_g_function ext mol topologies results kws xc e_shift coupling path w = (Inl e, results, w1)"
  from evaluate_with_xtb_trace [OF l] f show ?thesis by auto
next
  fix coords gs td cl w1
  assume l: "evaluate_with_xtb ext mol topologies kws xc path w = (Inr (coords, [], gs, td, cl), w1)"
    and f: "e_g_function ext mol topologies results kws xc e_shift coupling path w = (Inl IndexError, results, w1)"
  from evaluate_with_xtb_trace [OF l] f show ?thesis by auto
next
  fix coords es gs td cl w1 e
  assume l: "evaluate_with_xtb ext mol topologies kws xc path w = (Inr (coords, es, gs, td, cl), w1)"
    and ne: "es \<noteq> []"
    and f: "e_g_function ext mol topologies results kws xc e_shift coupling path w =
            (Inl e, results,
             w1\<lparr>trace := trace w1 @ [Solver_call (butlast es @ [last es + e_shift]) gs coupling]\<rparr>)"
  from evaluate_with_xtb_Inr [OF l] f l ne show ?thesis by auto
next
  fix coords es gs td cl w1 es_ad gs_ad inds
  assume l: "evaluate_with_xtb ext mol topologies kws xc path w = (Inr (coords, es, gs, td, cl), w1)"
    and ne: "es \<noteq> []"
    and f: "e_g_function ext mol topologies results kws xc e_shift coupling path w =
            (return_state_1 es_ad gs_ad,
             store_results coords (butlast es @ [last es + e_shift]) es_ad gs gs_ad inds results,
             w1\<lparr>trace := trace w1 @ [Solver_call (butlast es @ [last es + e_shift]) gs coupling],
                files := (if cl then fold TemporaryDirectory_cleanup td (files w1) else files w1)\<rparr>)"
  from evaluate_with_xtb_Inr [OF l] f l ne show ?thesis by auto
qed

lemma e_g_function_python_returns:
  fixes ext :: "('a::{plus,times}, 'k) externals"
  assumes "e_g_function_python ext mol cs results e_shift coupling path w = (Inr (e, g), results', w')"
  shows "\<exists>es gs es_ad gs_ad inds evs.
            trace w' = trace w @ evs @ [Solver_call es gs coupling]
          \<and> evb_eigenvalues ext es gs coupling = Inr (es_ad, gs_ad, inds)
          \<and> 1 < length es_ad \<and> 1 < length gs_ad \<and> e = es_ad ! 1 \<and> g = gs_ad ! 1
          \<and> energies_adiabatic results' = energies_adiabatic results @ [es_ad]
          \<and> gradients_adiabatic results' = gradients_adiabatic results @ [gs_ad]"
  using e_g_function_python_cases [where ext = ext and mol = mol and cs = cs and w = w
      and results = results and e_shift = e_shift and coupling = coupling and path = path]
proof (elim disjE exE conjE)
  fix es gs w1 es_ad gs_ad inds
  assume l: "calculators_loop ext (times_scalar (atom_coords mol) (BOHR_TO_ANGSTROM ext)) cs [] [] w = (Inr (es, gs), w1)"
    and evb: "evb_eigenvalues ext (butlast es @ [last es + e_shift]) gs coupling = Inr (es_ad, gs_ad, inds)"
    and f: "e_g_function_python ext mol cs results e_shift coupling path w =
            (return_state_1 es_ad gs_ad,
             store_results (times_scalar (atom_coords mol) (BOHR_TO_ANGSTROM ext))
               (butlast es @ [last es + e_shift]) es_ad gs gs_ad inds results,
             w1\<lparr>trace := trace w1 @ [Solver_call (butlast es @ [last es + e_shift]) gs coupling]\<rparr>)"
  from f assms have r: "return_state_1 es_ad gs_ad = Inr (e, g)"
    and res: "results' = store_results (times_scalar (atom_coords mol) (BOHR_TO_ANGSTROM ext))
               (butlast es @ [last es + e_shift]) es_ad gs gs_ad inds results"
    and w': "w' = w1\<lparr>trace := trace w1 @ [Solver_call (butlast es @ [last es + e_shift]) gs coupling]\<rparr>"
    by simp_all
  from calculators_loop_Inr [OF l] w'
  have tr: "trace w' = trace w @ replicate (length cs) (Evaluator_call (times_scalar (atom_coords mol) (BOHR_TO_ANGSTROM ext)))
              @ [Solver_call (butlast es @ [last es + e_shift]) gs coupling]"
    by simp
  from r have idx: "1 < length es_ad \<and> 1 < length gs_ad \<and> e = es_ad ! 1 \<and> g = gs_ad ! 1"
    by (simp only: return_state_1_Inr_iff)
  from res have st: "energies_adiabatic results' = energies_adiabatic results @ [es_ad]
          \<and> gradients_adiabatic results' = gradients_adiabatic results @ [gs_ad]"
    by (simp add: store_results_def)
  from tr evb idx st show ?thesis by blast
qed (use assms in auto)

lemma e_g_function_returns:
  fixes ext :: "('a::{plus,times}, 'k) externals"
  assumes "e_g_function ext mol topologies results kws xc e_shift coupling path w = (Inr (e, g), results', w')"
  shows "\<exists>es gs es_ad gs_ad inds evs.
            trace w' = trace w @ evs @ [Solver_call es gs coupling]
          \<and> evb_eigenvalues ext es gs coupling = Inr (es_ad, gs_ad, inds)
          \<and> 1 < length es_ad \<and> 1 < length gs_ad \<and> e = es_ad ! 1 \<and> g = gs_ad ! 1
          \<and> energies_adiabatic results' = energies_adiabatic results @ [es_ad]
          \<and> gradients_adiabatic results' = gradients_adiabatic results @ [gs_ad]"
  using e_g_function_cases [where ext = ext and mol = mol and topologies = topologies and kws = kws
      and xc = xc and path = path and w = w and results = results and e_shift = e_shift
      and coupling = coupling]
proof (elim disjE exE conjE)
  fix coords es gs td cl w1 es_ad gs_ad inds
  assume l: "evaluate_with_xtb ext mol topologies kws xc path w = (Inr (coords, es, gs, td, cl), w1)"
    and evb: "evb_eigenvalues ext (butlast es @ [last es + e_shift]) gs coupling = Inr (es_ad, gs_ad, inds)"
    and f: "e_g_function ext mol topologies results kws xc e_shift coupling path w =
            (return_state_1 es_ad gs_ad,
             store_results coords (butlast es @ [last es + e_shift]) es_ad gs gs_ad inds results,
             w1\<lparr>trace := trace w1 @ [Solver_call (butlast es @ [last es + e_shift]) gs coupling],
                files := (if cl then fold TemporaryDirectory_cleanup td (files w1) else files w1)\<rparr>)"
  from f assms have r: "return_state_1 es_ad gs_ad = Inr (e, g)"
    and res: "results' = store_results coords (butlast es @ [last es + e_shift]) es_ad gs gs_ad inds results"
    and w': "w' = w1\<lparr>trace := trace w1 @ [Solver_call (butlast es @ [last es + e_shift]) gs coupling],
                files := (if cl then fold TemporaryDirectory_cleanup td (files w1) else files w1)\<rparr>"
    by simp_all
  from evaluate_with_xtb_Inr [OF l] w'
  have tr: "trace w' = trace w @ replicate (length topologies) (Evaluator_call coords)
              @ [Solver_call (butlast es @ [last es + e_shift]) gs coupling]"
    by simp
  from r have idx: "1 < length es_ad \<and> 1 < length gs_ad \<and> e = es_ad ! 1 \<and> g = gs_ad ! 1"
    by (simp only: return_state_1_Inr_iff)
  from res have st: "energies_adiabatic results' = energies_adiabatic results @ [es_ad]
          \<and> gradients_adiabatic results' = gradients_adiabatic results @ [gs_ad]"
    by (simp add: store_results_def)
  from tr evb idx st show ?thesis by blast
qed (use assms in auto)

text \<open>
  C1. Whenever an invocation of \<^verbatim>\<open>e_g_function\<close> or of \<^verbatim>\<open>e_g_function_python\<close>
  returns a pair, the last call the invocation made is the call of the secular solver,
  the solver returned adiabatic energies and gradients with at least two entries each,
  and the pair is the entry at index 1 of the one and of the other: the first excited
  adiabatic state of the records the solver produced in this invocation, which are also
  the records appended to the accumulator. The index is the literal 1 in both bridges.
\<close>

theorem bridge_returns_adiabatic_state_1:
  fixes ext :: "('a::{plus,times}, 'k) externals"
  shows
  "(e_g_function ext mol topologies results kws xc e_shift coupling path w = (Inr (e, g), results', w')
      \<longrightarrow> (\<exists>es gs es_ad gs_ad inds evs.
            trace w' = trace w @ evs @ [Solver_call es gs coupling]
          \<and> evb_eigenvalues ext es gs coupling = Inr (es_ad, gs_ad, inds)
          \<and> 1 < length es_ad \<and> 1 < length gs_ad \<and> e = es_ad ! 1 \<and> g = gs_ad ! 1
          \<and> energies_adiabatic results' = energies_adiabatic results @ [es_ad]
          \<and> gradients_adiabatic results' = gradients_adiabatic results @ [gs_ad]))
   \<and> (e_g_function_python ext mol cs results e_shift coupling path w = (Inr (e, g), results', w')
      \<longrightarrow> (\<exists>es gs es_ad gs_ad inds evs.
            trace w' = trace w @ evs @ [Solver_call es gs coupling]
          \<and> evb_eigenvalues ext es gs coupling = Inr (es_ad, gs_ad, inds)
          \<and> 1 < length es_ad \<and> 1 < length gs_ad \<and> e = es_ad ! 1 \<and> g = gs_ad ! 1
          \<and> energies_adiabatic results' = energies_adiabatic results @ [es_ad]
          \<and> gradients_adiabatic results' = gradients_adiabatic results @ [gs_ad]))"
proof (intro conjI impI)
  assume "e_g_function ext mol topologies results kws xc e_shift coupling path w = (Inr (e, g), results', w')"
  then show "\<exists>es gs es_ad gs_ad inds evs.
            trace w' = trace w @ evs @ [Solver_call es gs coupling]
          \<and> evb_eigenvalues ext es gs coupling = Inr (es_ad, gs_ad, inds)
          \<and> 1 < length es_ad \<and> 1 < length gs_ad \<and> e = es_ad ! 1 \<and> g = gs_ad ! 1
          \<and> energies_adiabatic results' = energies_adiabatic results @ [es_ad]
          \<and> gradients_adiabatic results' = gradients_adiabatic results @ [gs_ad]"
    by (rule e_g_function_returns)
next
  assume "e_g_function_python ext mol cs results e_shift coupling path w = (Inr (e, g), results', w')"
  then show "\<exists>es gs es_ad gs_ad inds evs.
            trace w' = trace w @ evs @ [Solver_call es gs coupling]
          \<and> evb_eigenvalues ext es gs coupling = Inr (es_ad, gs_ad, inds)
          \<and> 1 < length es_ad \<and> 1 < length gs_ad \<and> e = es_ad ! 1 \<and> g = gs_ad ! 1
          \<and> energies_adiabatic results' = energies_adiabatic results @ [es_ad]
          \<and> gradients_adiabatic results' = gradients_adiabatic results @ [gs_ad]"
    by (rule e_g_function_python_returns)
qed

lemma example_python_run:
  "fst (e_g_function_python example_externals example_mole [5, 7] OptResults_new 3 0 None example_world)
     = Inr (5, [[0, 0, 0], [2, 0, 0]])"
  by (simp add: e_g_function_python_def example_externals_def example_mole_def example_world_def
      times_scalar_def call_sp_def shift_last_def py_index_def call_evb_eigenvalues_def
      return_state_1_def Let_def)

lemma example_xtb_run:
  "fst (e_g_function example_externals example_mole [''a'', ''bcd''] OptResults_new None None 3 0
          (Some [''home'']) example_world)
     = Inr (1, [[1]])"
  by (simp add: e_g_function_def evaluate_with_xtb_def working_directories_def
      example_externals_def example_mole_def example_world_def
      times_scalar_def call_run_xtb_def stage_topology_def mkdir_exist_ok_def open_wb_write_def
      path_exists_def is_dir_def shift_last_def py_index_def call_evb_eigenvalues_def
      return_state_1_def Let_def upt_rec normalize_keywords_def)


text \<open>
  Both bridges return on the example inputs, so the hypothesis of each half is met: two
  calculators with raw energies 5 and 7, shift 3; two topologies of 1 and 3 bytes,
  shift 3. The solver stand-in reverses its input, so index 1 is the first state.
\<close>

theorem bridge_returns_adiabatic_state_1_witness:
  "fst (e_g_function example_externals example_mole [''a'', ''bcd''] OptResults_new None None 3 0
          (Some [''home'']) example_world) = Inr (1, [[1]])
   \<and> (\<exists>es gs es_ad gs_ad inds evs.
          trace (snd (snd (e_g_function example_externals example_mole [''a'', ''bcd''] OptResults_new
                             None None 3 0 (Some [''home'']) example_world)))
            = trace example_world @ evs @ [Solver_call es gs 0]
        \<and> evb_eigenvalues example_externals es gs 0 = Inr (es_ad, gs_ad, inds)
        \<and> 1 < length es_ad \<and> 1 < length gs_ad \<and> 1 = es_ad ! 1 \<and> [[1]] = gs_ad ! 1)
   \<and> fst (e_g_function_python example_externals example_mole [5, 7] OptResults_new 3 0 None
            example_world) = Inr (5, [[0, 0, 0], [2, 0, 0]])
   \<and> (\<exists>es gs es_ad gs_ad inds evs.
          trace (snd (snd (e_g_function_python example_externals example_mole [5, 7] OptResults_new
                             3 0 None example_world)))
            = trace example_world @ evs @ [Solver_call es gs 0]
        \<and> evb_eigenvalues example_externals es gs 0 = Inr (es_ad, gs_ad, inds)
        \<and> 1 < length es_ad \<and> 1 < length gs_ad \<and> 5 = es_ad ! 1 \<and> [[0, 0, 0], [2, 0, 0]] = gs_ad ! 1)"
proof -
  let ?X = "e_g_function example_externals example_mole [''a'', ''bcd''] OptResults_new None None 3 0
              (Some [''home'']) example_world"
  let ?P = "e_g_function_python example_externals example_mole [5, 7] OptResults_new 3 0 None
              example_world"
  have x: "?X = (Inr (1, [[1]]), fst (snd ?X), snd (snd ?X))"
    using example_xtb_run by (metis prod.collapse)
  have p: "?P = (Inr (5, [[0, 0, 0], [2, 0, 0]]), fst (snd ?P), snd (snd ?P))"
    using example_python_run by (metis prod.collapse)
  note inst = bridge_returns_adiabatic_state_1 [where ext = example_externals and mol = example_mole
      and results = OptResults_new and e_shift = 3 and coupling = 0 and w = example_world]
  from inst [where topologies = "[''a'', ''bcd'']" and kws = None and xc = None
      and path = "Some [''home'']" and e = 1 and g = "[[1]]"
      and results' = "fst (snd ?X)" and w' = "snd (snd ?X)", THEN conjunct1] x
  have cx: "\<exists>es gs es_ad gs_ad inds evs.
          trace (snd (snd ?X)) = trace example_world @ evs @ [Solver_call es gs 0]
        \<and> evb_eigenvalues example_externals es gs 0 = Inr (es_ad, gs_ad, inds)
        \<and> 1 < length es_ad \<and> 1 < length gs_ad \<and> 1 = es_ad ! 1 \<and> [[1]] = gs_ad ! 1"
    by blast
  from inst [where cs = "[5, 7]" and path = None and e = 5 and g = "[[0, 0, 0], [2, 0, 0]]"
      and results' = "fst (snd ?P)" and w' = "snd (snd ?P)", THEN conjunct2] p
  have cp: "\<exists>es gs es_ad gs_ad inds evs.
          trace (snd (snd ?P)) = trace example_world @ evs @ [Solver_call es gs 0]
        \<and> evb_eigenvalues example_externals es gs 0 = Inr (es_ad, gs_ad, inds)
        \<and> 1 < length es_ad \<and> 1 < length gs_ad \<and> 5 = es_ad ! 1 \<and> [[0, 0, 0], [2, 0, 0]] = gs_ad ! 1"
    by blast
  from example_xtb_run cx example_python_run cp show ?thesis
    by (intro conjI)
qed

lemma shift_last_entries:
  assumes "es \<noteq> []"
  shows "\<exists>es'. shift_last es s = Inr es' \<and> es' = butlast es @ [last es + s]
           \<and> length es' = length es
           \<and> (\<forall>i. i < length es - 1 \<longrightarrow> es' ! i = es ! i)
           \<and> es' ! (length es - 1) = es ! (length es - 1) + s"
proof -
  from assms obtain xs x where es: "es = xs @ [x]" by (cases es rule: rev_cases) auto
  then show ?thesis
    by (simp add: shift_last_eq nth_append)
qed

lemma drop_trace_append: "tr' = tr @ new \<Longrightarrow> drop (length tr) tr' = new"
  by simp

lemma e_g_function_solver_calls:
  fixes ext :: "('a::{plus,times}, 'k) externals"
  assumes "Solver_call es0 gs0 c0 \<in> set (drop (length (trace w))
             (trace (snd (snd (e_g_function ext mol topologies results kws xc e_shift coupling path w)))))"
  shows "\<exists>coords es gs td cl w1.
           evaluate_with_xtb ext mol topologies kws xc path w = (Inr (coords, es, gs, td, cl), w1)
         \<and> shift_last es e_shift = Inr es0 \<and> gs0 = gs \<and> c0 = coupling"
  using e_g_function_events [where ext = ext and mol = mol and topologies = topologies and kws = kws
      and xc = xc and path = path and w = w and results = results and e_shift = e_shift
      and coupling = coupling]
proof (elim disjE exE conjE)
  fix k
  assume "trace (snd (snd (e_g_function ext mol topologies results kws xc e_shift coupling path w)))
            = trace w @ replicate k (Evaluator_call (times_scalar (atom_coords mol) (BOHR_TO_ANGSTROM ext)))"
  with assms show ?thesis by simp
next
  fix coords es gs td cl w1
  assume ev: "evaluate_with_xtb ext mol topologies kws xc path w = (Inr (coords, es, gs, td, cl), w1)"
    and ne: "es \<noteq> []"
    and tr: "trace (snd (snd (e_g_function ext mol topologies results kws xc e_shift coupling path w)))
           = trace w @ replicate (length topologies) (Evaluator_call (times_scalar (atom_coords mol) (BOHR_TO_ANGSTROM ext)))
               @ [Solver_call (butlast es @ [last es + e_shift]) gs coupling]"
  from assms tr have "es0 = butlast es @ [last es + e_shift] \<and> gs0 = gs \<and> c0 = coupling"
    by auto
  with ev ne show ?thesis by (auto simp: shift_last_eq)
qed

lemma e_g_function_python_solver_calls:
  fixes ext :: "('a::{plus,times}, 'k) externals"
  assumes "Solver_call es0 gs0 c0 \<in> set (drop (length (trace w))
             (trace (snd (snd (e_g_function_python ext mol cs results e_shift coupling path w)))))"
  shows "\<exists>es gs w1.
           calculators_loop ext (times_scalar (atom_coords mol) (BOHR_TO_ANGSTROM ext)) cs [] [] w
             = (Inr (es, gs), w1)
         \<and> shift_last es e_shift = Inr es0 \<and> gs0 = gs \<and> c0 = coupling"
  using e_g_function_python_events [where ext = ext and mol = mol and cs = cs and w = w
      and results = results and e_shift = e_shift and coupling = coupling and path = path]
proof (elim disjE exE conjE)
  fix k
  assume "trace (snd (snd (e_g_function_python ext mol cs results e_shift coupling path w)))
            = trace w @ replicate k (Evaluator_call (times_scalar (atom_coords mol) (BOHR_TO_ANGSTROM ext)))"
  with assms show ?thesis by simp
next
  fix es gs w1
  assume ev: "calculators_loop ext (times_scalar (atom_coords mol) (BOHR_TO_ANGSTROM ext)) cs [] [] w
           = (Inr (es, gs), w1)"
    and ne: "es \<noteq> []"
    and tr: "trace (snd (snd (e_g_function_python ext mol cs results e_shift coupling path w)))
           = trace w @ replicate (length cs) (Evaluator_call (times_scalar (atom_coords mol) (BOHR_TO_ANGSTROM ext)))
               @ [Solver_call (butlast es @ [last es + e_shift]) gs coupling]"
  from assms tr have "es0 = butlast es @ [last es + e_shift] \<and> gs0 = gs \<and> c0 = coupling"
    by auto
  with ev ne show ?thesis by (auto simp: shift_last_eq)
qed

lemma e_g_function_solver_call_after_evaluation:
  fixes ext :: "('a::{plus,times}, 'k) externals"
  assumes ev: "evaluate_with_xtb ext mol topologies kws xc path w = (Inr (coords, es, gs, td, cl), w1)"
    and ne: "es \<noteq> []"
  shows "trace (snd (snd (e_g_function ext mol topologies results kws xc e_shift coupling path w)))
           = trace w @ replicate (length topologies) (Evaluator_call coords)
               @ [Solver_call (butlast es @ [last es + e_shift]) gs coupling]"
proof (cases "evb_eigenvalues ext (butlast es @ [last es + e_shift]) gs coupling")
  case (Inl e)
  from e_g_function_solver_failed [OF ev ne Inl] evaluate_with_xtb_Inr [OF ev]
  show ?thesis by simp
next
  case (Inr tr)
  obtain es_ad gs_ad inds where "tr = (es_ad, gs_ad, inds)" by (cases tr)
  with Inr have "evb_eigenvalues ext (butlast es @ [last es + e_shift]) gs coupling = Inr (es_ad, gs_ad, inds)"
    by simp
  from e_g_function_stored [OF ev ne this] evaluate_with_xtb_Inr [OF ev]
  show ?thesis by simp
qed

lemma e_g_function_python_solver_call_after_evaluation:
  fixes ext :: "('a::{plus,times}, 'k) externals"
  assumes ev: "calculators_loop ext (times_scalar (atom_coords mol) (BOHR_TO_ANGSTROM ext)) cs [] [] w
                 = (Inr (es, gs), w1)"
    and ne: "es \<noteq> []"
  shows "trace (snd (snd (e_g_function_python ext mol cs results e_shift coupling path w)))
           = trace w @ replicate (length cs) (Evaluator_call (times_scalar (atom_coords mol) (BOHR_TO_ANGSTROM ext)))
               @ [Solver_call (butlast es @ [last es + e_shift]) gs coupling]"
proof (cases "evb_eigenvalues ext (butlast es @ [last es + e_shift]) gs coupling")
  case (Inl e)
  from e_g_function_python_solver_failed [OF ev ne Inl] calculators_loop_Inr [OF ev]
  show ?thesis by simp
next
  case (Inr tr)
  obtain es_ad gs_ad inds where "tr = (es_ad, gs_ad, inds)" by (cases tr)
  with Inr have "evb_eigenvalues ext (butlast es @ [last es + e_shift]) gs coupling = Inr (es_ad, gs_ad, inds)"
    by simp
  from e_g_function_python_stored [OF ev ne this] calculators_loop_Inr [OF ev]
  show ?thesis by simp
qed

text \<open>
  C6. In both bridges: when every evaluator has answered, with raw energies \<open>es\<close>
  (one per state, in the order of evaluation, at least one), the invocation adds to the
  trace exactly the evaluator calls, one per state, and after them one call of the
  secular solver, whose energy argument \<open>es'\<close> has the length of \<open>es\<close>, agrees with
  \<open>es\<close> at every position but the last, and holds at the last position the raw energy
  plus \<^verbatim>\<open>e_shift\<close>. Conversely every call of the solver that an invocation makes has
  as energy argument the shifted energies of a completed evaluation, so the solver is
  never called with unshifted energies or before an evaluator.
\<close>

theorem shift_on_last_state_before_solver:
  fixes ext :: "('a::{plus,times}, 'k) externals"
  shows
  "(evaluate_with_xtb ext mol topologies kws xc path w = (Inr (coords, es, gs, td, cl), w1) \<and> es \<noteq> []
      \<longrightarrow> (\<exists>es'. shift_last es e_shift = Inr es' \<and> length es' = length es
             \<and> (\<forall>i. i < length es - 1 \<longrightarrow> es' ! i = es ! i)
             \<and> es' ! (length es - 1) = es ! (length es - 1) + e_shift
             \<and> trace (snd (snd (e_g_function ext mol topologies results kws xc e_shift coupling path w)))
                 = trace w @ replicate (length topologies) (Evaluator_call coords)
                     @ [Solver_call es' gs coupling]))
   \<and> (calculators_loop ext (times_scalar (atom_coords mol) (BOHR_TO_ANGSTROM ext)) cs [] [] w
         = (Inr (es, gs), w1) \<and> es \<noteq> []
      \<longrightarrow> (\<exists>es'. shift_last es e_shift = Inr es' \<and> length es' = length es
             \<and> (\<forall>i. i < length es - 1 \<longrightarrow> es' ! i = es ! i)
             \<and> es' ! (length es - 1) = es ! (length es - 1) + e_shift
             \<and> trace (snd (snd (e_g_function_python ext mol cs results e_shift coupling path w)))
                 = trace w @ replicate (length cs)
                       (Evaluator_call (times_scalar (atom_coords mol) (BOHR_TO_ANGSTROM ext)))
                     @ [Solver_call es' gs coupling]))
   \<and> (Solver_call es0 gs0 c0 \<in> set (drop (length (trace w))
          (trace (snd (snd (e_g_function ext mol topologies results kws xc e_shift coupling path w)))))
      \<longrightarrow> (\<exists>coords es gs td cl w1.
             evaluate_with_xtb ext mol topologies kws xc path w = (Inr (coords, es, gs, td, cl), w1)
           \<and> shift_last es e_shift = Inr es0 \<and> gs0 = gs \<and> c0 = coupling))
   \<and> (Solver_call es0 gs0 c0 \<in> set (drop (length (trace w))
          (trace (snd (snd (e_g_function_python ext mol cs results e_shift coupling path w)))))
      \<longrightarrow> (\<exists>es gs w1.
             calculators_loop ext (times_scalar (atom_coords mol) (BOHR_TO_ANGSTROM ext)) cs [] [] w
               = (Inr (es, gs), w1)
           \<and> shift_last es e_shift = Inr es0 \<and> gs0 = gs \<and> c0 = coupling))"
proof (intro conjI impI)
  assume a: "evaluate_with_xtb ext mol topologies kws xc path w = (Inr (coords, es, gs, td, cl), w1) \<and> es \<noteq> []"
  from shift_last_entries [of es e_shift] a
    e_g_function_solver_call_after_evaluation [where ext = ext and results = results and e_shift = e_shift
      and coupling = coupling, OF conjunct1 [OF a] conjunct2 [OF a]]
  show "\<exists>es'. shift_last es e_shift = Inr es' \<and> length es' = length es
             \<and> (\<forall>i. i < length es - 1 \<longrightarrow> es' ! i = es ! i)
             \<and> es' ! (length es - 1) = es ! (length es - 1) + e_shift
             \<and> trace (snd (snd (e_g_function ext mol topologies results kws xc e_shift coupling path w)))
                 = trace w @ replicate (length topologies) (Evaluator_call coords)
                     @ [Solver_call es' gs coupling]"
    by auto
next
  assume a: "calculators_loop ext (times_scalar (atom_coords mol) (BOHR_TO_ANGSTROM ext)) cs [] [] w
         = (Inr (es, gs), w1) \<and> es \<noteq> []"
  from shift_last_entries [of es e_shift] a
    e_g_function_python_solver_call_after_evaluation [where ext = ext and results = results
      and e_shift = e_shift and coupling = coupling and path = path, OF conjunct1 [OF a] conjunct2 [OF a]]
  show "\<exists>es'. shift_last es e_shift = Inr es' \<and> length es' = length es
             \<and> (\<forall>i. i < length es - 1 \<longrightarrow> es' ! i = es ! i)
             \<and> es' ! (length es - 1) = es ! (length es - 1) + e_shift
             \<and> trace (snd (snd (e_g_function_python ext mol cs results e_shift coupling path w)))
                 = trace w @ replicate (length cs)
                       (Evaluator_call (times_scalar (atom_coords mol) (BOHR_TO_ANGSTROM ext)))
                     @ [Solver_call es' gs coupling]"
    by auto
next
  assume "Solver_call es0 gs0 c0 \<in> set (drop (length (trace w))
          (trace (snd (snd (e_g_function ext mol topologies results kws xc e_shift coupling path w)))))"
  then show "\<exists>coords es gs td cl w1.
             evaluate_with_xtb ext mol topologies kws xc path w = (Inr (coords, es, gs, td, cl), w1)
           \<and> shift_last es e_shift = Inr es0 \<and> gs0 = gs \<and> c0 = coupling"
    by (rule e_g_function_solver_calls)
next
  assume "Solver_call es0 gs0 c0 \<in> set (drop (length (trace w))
          (trace (snd (snd (e_g_function_python ext mol cs results e_shift coupling path w)))))"
  then show "\<exists>es gs w1.
             calculators_loop ext (times_scalar (atom_coords mol) (BOHR_TO_ANGSTROM ext)) cs [] [] w
               = (Inr (es, gs), w1)
           \<and> shift_last es e_shift = Inr es0 \<and> gs0 = gs \<and> c0 = coupling"
    by (rule e_g_function_python_solver_calls)
qed

lemma example_xtb_evaluation:
  "fst (evaluate_with_xtb example_externals example_mole [''a'', ''bcd''] None None (Some [''home''])
          example_world)
     = Inr ([[0, 0, 0], [2, 0, 0]], [1, 3], [[[1]], [[3]]], [], False)"
  by (simp add: evaluate_with_xtb_def working_directories_def
      example_externals_def example_mole_def example_world_def
      times_scalar_def call_run_xtb_def stage_topology_def mkdir_exist_ok_def open_wb_write_def
      path_exists_def is_dir_def Let_def upt_rec normalize_keywords_def)

lemma example_python_evaluation:
  "fst (calculators_loop example_externals
          (times_scalar (atom_coords example_mole) (BOHR_TO_ANGSTROM example_externals))
          [5, 7] [] [] example_world)
     = Inr ([5, 7], [[[0, 0, 0], [2, 0, 0]], [[0, 0, 0], [2, 0, 0]]])"
  by (simp add: example_externals_def example_mole_def example_world_def
      times_scalar_def call_sp_def Let_def)

lemma example_coordinates:
  "times_scalar (atom_coords example_mole) (BOHR_TO_ANGSTROM example_externals) = [[0, 0, 0], [2, 0, 0]]"
  by (simp add: example_externals_def example_mole_def times_scalar_def)

text \<open>
  On the example inputs both evaluations succeed, with raw energies \<open>[1, 3]\<close> and
  \<open>[5, 7]\<close>; with the shift 3 the solver receives \<open>[1, 6]\<close> and \<open>[5, 10]\<close>, after
  two evaluator calls each.
\<close>

theorem shift_on_last_state_before_solver_witness:
  "fst (evaluate_with_xtb example_externals example_mole [''a'', ''bcd''] None None (Some [''home''])
          example_world)
     = Inr ([[0, 0, 0], [2, 0, 0]], [1, 3], [[[1]], [[3]]], [], False)
   \<and> fst (calculators_loop example_externals
          (times_scalar (atom_coords example_mole) (BOHR_TO_ANGSTROM example_externals))
          [5, 7] [] [] example_world)
     = Inr ([5, 7], [[[0, 0, 0], [2, 0, 0]], [[0, 0, 0], [2, 0, 0]]])
   \<and> trace (snd (snd (e_g_function example_externals example_mole [''a'', ''bcd''] OptResults_new
                        None None 3 0 (Some [''home'']) example_world)))
       = [Evaluator_call [[0, 0, 0], [2, 0, 0]], Evaluator_call [[0, 0, 0], [2, 0, 0]],
          Solver_call [1, 6] [[[1]], [[3]]] 0]
   \<and> trace (snd (snd (e_g_function_python example_externals example_mole [5, 7] OptResults_new
                        3 0 None example_world)))
       = [Evaluator_call [[0, 0, 0], [2, 0, 0]], Evaluator_call [[0, 0, 0], [2, 0, 0]],
          Solver_call [5, 10] [[[0, 0, 0], [2, 0, 0]], [[0, 0, 0], [2, 0, 0]]] 0]
   \<and> (\<exists>coords es gs td cl w1.
         evaluate_with_xtb example_externals example_mole [''a'', ''bcd''] None None (Some [''home''])
           example_world = (Inr (coords, es, gs, td, cl), w1)
       \<and> shift_last es 3 = Inr [1, 6])
   \<and> (\<exists>es gs w1.
         calculators_loop example_externals
           (times_scalar (atom_coords example_mole) (BOHR_TO_ANGSTROM example_externals))
           [5, 7] [] [] example_world = (Inr (es, gs), w1)
       \<and> shift_last es 3 = Inr [5, 10])"
proof -
  let ?C = "[[0, 0, 0], [2, 0, 0]] :: int list list"
  let ?EV = "evaluate_with_xtb example_externals example_mole [''a'', ''bcd''] None None (Some [''home''])
          example_world"
  let ?LP = "calculators_loop example_externals
          (times_scalar (atom_coords example_mole) (BOHR_TO_ANGSTROM example_externals))
          [5, 7] [] [] example_world"
  let ?X = "e_g_function example_externals example_mole [''a'', ''bcd''] OptResults_new
                        None None 3 0 (Some [''home'']) example_world"
  let ?P = "e_g_function_python example_externals example_mole [5, 7] OptResults_new
                        3 0 None example_world"
  have ev: "?EV = (Inr (?C, [1, 3], [[[1]], [[3]]], [], False), snd ?EV)"
    using example_xtb_evaluation by (metis prod.collapse)
  have lp: "?LP = (Inr ([5, 7], [?C, ?C]), snd ?LP)"
    using example_python_evaluation by (metis prod.collapse)
  have s1: "shift_last [1, 3 :: int] 3 = Inr [1, 6]" and s2: "shift_last [5, 7 :: int] 3 = Inr [5, 10]"
    by (simp_all add: shift_last_def py_index_def)
  have t0: "trace example_world = []"
    by (simp add: example_world_def)
  note inst = shift_on_last_state_before_solver [where ext = example_externals and mol = example_mole
      and topologies = "[''a'', ''bcd'']" and kws = None and xc = None and path = "Some [''home'']"
      and w = example_world and results = OptResults_new and e_shift = 3 and coupling = 0
      and cs = "[5, 7]"]
  from inst [where coords = ?C and es = "[1, 3]" and gs = "[[[1]], [[3]]]" and td = "[]" and cl = False
      and ?w1.0 = "snd ?EV", THEN conjunct1] ev s1 t0
  have tx: "trace (snd (snd ?X)) = [Evaluator_call ?C, Evaluator_call ?C, Solver_call [1, 6] [[[1]], [[3]]] 0]"
    by (simp add: numeral_2_eq_2)
  have px: "e_g_function_python example_externals example_mole [5, 7] OptResults_new 3 0 (Some [''home''])
              example_world = ?P"
    by (simp add: e_g_function_python_def)
  from inst [where es = "[5, 7]" and gs = "[?C, ?C]" and ?w1.0 = "snd ?LP",
      THEN conjunct2, THEN conjunct1] lp s2 t0 px
  have tp: "trace (snd (snd ?P)) = [Evaluator_call ?C, Evaluator_call ?C, Solver_call [5, 10] [?C, ?C] 0]"
    by (simp add: numeral_2_eq_2 example_coordinates)
  from inst [where ?es0.0 = "[1, 6]" and ?gs0.0 = "[[[1]], [[3]]]" and ?c0.0 = 0,
      THEN conjunct2, THEN conjunct2, THEN conjunct1] tx t0
  have cx: "\<exists>coords es gs td cl w1. ?EV = (Inr (coords, es, gs, td, cl), w1) \<and> shift_last es 3 = Inr [1, 6]"
    by auto
  from inst [where ?es0.0 = "[5, 10]" and ?gs0.0 = "[?C, ?C]" and ?c0.0 = 0,
      THEN conjunct2, THEN conjunct2, THEN conjunct2] tp t0 px
  have cp: "\<exists>es gs w1. ?LP = (Inr (es, gs), w1) \<and> shift_last es 3 = Inr [5, 10]"
    by auto
  from example_xtb_evaluation example_python_evaluation tx tp cx cp show ?thesis
    by (intro conjI)
qed

















lemma example_optimize_ci_files:
  "mktemp [''tmp''] [''t0'', ''t1'', ''t2''] [[''tmp''] \<mapsto> Dir, [''home''] \<mapsto> Dir] = Inr [''tmp'', ''t0'']"
  by (simp add: path_exists_def)

lemma example_get_pyscf_mole:
  "get_pyscf_mole example_externals [Atomic_symbol ''H'', Atomic_symbol ''H''] [[0, 0, 0], [1, 0, 0]]
     = Inr example_mole"
  by (simp add: get_pyscf_mole_def example_externals_def example_mole_def)






















lemma mkdir_exist_ok_keeps:
  "mkdir_exist_ok p fs = Inr fs' \<Longrightarrow> fs q \<noteq> None \<Longrightarrow> fs' q = fs q"
  by (auto simp: mkdir_exist_ok_def path_exists_def split: if_splits)

lemma mkdir_exist_ok_is_dir:
  "mkdir_exist_ok p fs = Inr fs' \<Longrightarrow> is_dir fs' p \<and> path_exists fs' p"
  by (auto simp: mkdir_exist_ok_def path_exists_def is_dir_def split: if_splits)

lemma mkdir_exist_ok_again:
  "is_dir fs p \<Longrightarrow> mkdir_exist_ok p fs = Inr fs"
  by (auto simp: mkdir_exist_ok_def path_exists_def is_dir_def)

lemma stage_topology_keeps:
  "fs q \<noteq> None \<Longrightarrow> snd (stage_topology topology xtb_path fs) q = fs q"
  by (auto simp: stage_topology_def open_wb_write_def path_exists_def
      dest: mkdir_exist_ok_keeps split: sum.splits if_splits)

lemma stage_topology_done:
  assumes "stage_topology topology xtb_path fs = (None, fs1)"
  shows "is_dir fs1 xtb_path"
    and "fs1 (xtb_path @ [''gfnff_topo'']) \<noteq> None"
    and "fs (xtb_path @ [''gfnff_topo'']) = None
           \<Longrightarrow> fs1 (xtb_path @ [''gfnff_topo'']) = Some (File topology)"
proof -
  from assms obtain fs0 where mk: "mkdir_exist_ok xtb_path fs = Inr fs0"
    by (auto simp: stage_topology_def split: sum.splits)
  note d = mkdir_exist_ok_is_dir [OF mk]
  show "is_dir fs1 xtb_path"
    using assms mk d
    by (auto simp: stage_topology_def open_wb_write_def is_dir_def split: sum.splits if_splits)
  show "fs1 (xtb_path @ [''gfnff_topo'']) \<noteq> None"
    using assms mk
    by (auto simp: stage_topology_def open_wb_write_def path_exists_def split: sum.splits if_splits)
  assume "fs (xtb_path @ [''gfnff_topo'']) = None"
  then have "fs0 (xtb_path @ [''gfnff_topo'']) = None"
    using mk by (auto simp: mkdir_exist_ok_def split: if_splits)
  then show "fs1 (xtb_path @ [''gfnff_topo'']) = Some (File topology)"
    using assms mk
    by (auto simp: stage_topology_def open_wb_write_def path_exists_def split: sum.splits if_splits)
qed

lemma stage_topology_again:
  assumes "stage_topology topology xtb_path fs = (None, fs1)"
  shows "stage_topology topology' xtb_path fs1 = (None, fs1)"
proof -
  from stage_topology_done(1,2) [OF assms]
  have "is_dir fs1 xtb_path" "path_exists fs1 (xtb_path @ [''gfnff_topo''])"
    by (simp_all add: path_exists_def)
  then show ?thesis
    by (simp add: stage_topology_def mkdir_exist_ok_again)
qed

lemma xtb_loop_keeps_topologies:
  assumes frame: "\<forall>elems coords p kws xc fs q n.
            fs q = Some n \<and> is_topology_file q
              \<longrightarrow> snd (run_xtb ext elems coords p kws xc fs) q = Some n"
  shows "xtb_loop ext elems coords kws xc tps es gs w = (r, w') \<Longrightarrow> files w q = Some n
           \<Longrightarrow> is_topology_file q \<Longrightarrow> files w' q = Some n"
proof (induction tps arbitrary: es gs w)
  case Nil
  then show ?case by simp
next
  case (Cons tp tps)
  obtain topology xtb_path where tp: "tp = (topology, xtb_path)" by (cases tp)
  obtain r1 fs1 where st: "stage_topology topology xtb_path (files w) = (r1, fs1)"
    by (cases "stage_topology topology xtb_path (files w)")
  from stage_topology_keeps [of "files w" q topology xtb_path] st Cons.prems(2)
  have q1: "fs1 q = Some n" by simp
  show ?case
  proof (cases r1)
    case (Some e)
    with Cons.prems tp st have "w' = w\<lparr>files := fs1\<rparr>" by simp
    with q1 show ?thesis by simp
  next
    case None
    obtain r2 w2 where run: "call_run_xtb ext elems coords xtb_path kws xc (w\<lparr>files := fs1\<rparr>) = (r2, w2)"
      by (cases "call_run_xtb ext elems coords xtb_path kws xc (w\<lparr>files := fs1\<rparr>)")
    from call_run_xtb_trace [OF run] frame q1 Cons.prems(3)
    have q2: "files w2 q = Some n" by simp
    show ?thesis
    proof (cases r2)
      case (Some e)
      with Cons.prems tp st None run have "w' = w2" by simp
      with q2 show ?thesis by simp
    next
      case r2None: None
      show ?thesis
      proof (cases "parse_engrad ext (xtb_path @ [''xtb.engrad'']) (files w2)")
        case (Inl e)
        with Cons.prems tp st None run r2None have "w' = w2" by simp
        with q2 show ?thesis by simp
      next
        case (Inr pr)
        obtain energy gradient where pr: "pr = (energy, gradient)" by (cases pr)
        with Cons.prems tp st None run r2None Inr
        have "xtb_loop ext elems coords kws xc tps (es @ [energy]) (gs @ [gradient]) w2 = (r, w')"
          by simp
        from Cons.IH [OF this q2 Cons.prems(3)] show ?thesis .
      qed
    qed
  qed
qed

lemma evaluate_with_xtb_keeps_topologies:
  assumes frame: "\<forall>elems coords p kws xc fs q n.
            fs q = Some n \<and> is_topology_file q
              \<longrightarrow> snd (run_xtb ext elems coords p kws xc fs) q = Some n"
    and ev: "evaluate_with_xtb ext mol topologies kws xc (Some p) w = (r, w')"
    and q: "files w q = Some n" "is_topology_file q"
  shows "files w' q = Some n"
proof -
  let ?paths = "map (\<lambda>i. p @ [str i]) [0..<length topologies]"
  from ev have "xtb_loop ext (atom_charges mol) (times_scalar (atom_coords mol) (BOHR_TO_ANGSTROM ext))
         (insert ''--grad'' (normalize_keywords kws)) xc (zip topologies ?paths) [] [] w
       = (case r of Inl e \<Rightarrow> Inl e | Inr (c, es, gs, td, cl) \<Rightarrow> Inr (es, gs), w')"
    by (auto simp: evaluate_with_xtb_def working_directories_def Let_def split: sum.splits prod.splits)
  from xtb_loop_keeps_topologies [OF frame this q] show ?thesis .
qed

lemma evaluate_with_xtb_persistent:
  "evaluate_with_xtb ext mol topologies kws xc (Some p) w = (Inr (c, es, gs, td, cl), w') \<Longrightarrow> \<not> cl"
  by (auto simp: evaluate_with_xtb_def working_directories_def Let_def split: sum.splits prod.splits)

lemma e_g_function_keeps_topologies:
  fixes ext :: "('a::{plus,times}, 'k) externals"
  assumes frame: "\<forall>elems coords p kws xc fs q n.
            fs q = Some n \<and> is_topology_file q
              \<longrightarrow> snd (run_xtb ext elems coords p kws xc fs) q = Some n"
    and q: "files w q = Some n" "is_topology_file q"
  shows "files (snd (snd (e_g_function ext mol topologies results kws xc e_shift coupling (Some p) w))) q
           = Some n"
  using e_g_function_cases [where ext = ext and mol = mol and topologies = topologies and kws = kws
      and xc = xc and path = "Some p" and w = w and results = results and e_shift = e_shift
      and coupling = coupling]
proof (elim disjE exE conjE)
  fix e w1
  assume "evaluate_with_xtb ext mol topologies kws xc (Some p) w = (Inl e, w1)"
    "e_g_function ext mol topologies results kws xc e_shift coupling (Some p) w = (Inl e, results, w1)"
  with evaluate_with_xtb_keeps_topologies [OF frame _ q] show ?thesis by simp
next
  fix coords gs td cl w1
  assume "evaluate_with_xtb ext mol topologies kws xc (Some p) w = (Inr (coords, [], gs, td, cl), w1)"
    "e_g_function ext mol topologies results kws xc e_shift coupling (Some p) w = (Inl IndexError, results, w1)"
  with evaluate_with_xtb_keeps_topologies [OF frame _ q] show ?thesis by simp
next
  fix coords es gs td cl w1 e
  assume "evaluate_with_xtb ext mol topologies kws xc (Some p) w = (Inr (coords, es, gs, td, cl), w1)"
    "e_g_function ext mol topologies results kws xc e_shift coupling (Some p) w =
            (Inl e, results,
             w1\<lparr>trace := trace w1 @ [Solver_call (butlast es @ [last es + e_shift]) gs coupling]\<rparr>)"
  with evaluate_with_xtb_keeps_topologies [OF frame _ q] show ?thesis by simp
next
  fix coords es gs td cl w1 es_ad gs_ad inds
  assume ev: "evaluate_with_xtb ext mol topologies kws xc (Some p) w = (Inr (coords, es, gs, td, cl), w1)"
    and f: "e_g_function ext mol topologies results kws xc e_shift coupling (Some p) w =
            (return_state_1 es_ad gs_ad,
             store_results coords (butlast es @ [last es + e_shift]) es_ad gs gs_ad inds results,
             w1\<lparr>trace := trace w1 @ [Solver_call (butlast es @ [last es + e_shift]) gs coupling],
                files := (if cl then fold TemporaryDirectory_cleanup td (files w1) else files w1)\<rparr>)"
  from evaluate_with_xtb_persistent [OF ev] have "\<not> cl" .
  with f evaluate_with_xtb_keeps_topologies [OF frame ev q] show ?thesis by simp
qed

lemma e_g_function_ci_keeps_topologies:
  fixes ext :: "('a::{plus,times}, 'k) externals"
  assumes frame: "\<forall>elems coords p kws xc fs q n.
            fs q = Some n \<and> is_topology_file q
              \<longrightarrow> snd (run_xtb ext elems coords p kws xc fs) q = Some n"
    and q: "files w q = Some n" "is_topology_file q"
  shows "files (snd (snd (e_g_function_ci ext mol topologies results kws xc e_shift (Some p) w))) q
           = Some n"
proof (cases "evaluate_with_xtb ext mol topologies kws xc (Some p) w")
  case (Pair r w1)
  have "snd (snd (e_g_function_ci ext mol topologies results kws xc e_shift (Some p) w)) = w1"
    using Pair by (auto simp: e_g_function_ci_def split: sum.splits prod.splits)
  with evaluate_with_xtb_keeps_topologies [OF frame Pair q] show ?thesis by simp
qed

lemma example_run_xtb_frame:
  "\<forall>elems coords p kws xc fs q n.
      fs q = Some n \<and> is_topology_file q
        \<longrightarrow> snd (run_xtb example_externals elems coords p kws xc fs) q = Some n"
  by (auto simp: example_externals_def is_topology_file_def split: option.splits node.splits)

lemma example_staging:
  "stage_topology ''a'' [''home'', ''0''] (files example_world)
     = (None, (files example_world)([''home'', ''0''] \<mapsto> Dir,
                                    [''home'', ''0'', ''gfnff_topo''] \<mapsto> File ''a''))"
  by (simp add: stage_topology_def mkdir_exist_ok_def open_wb_write_def path_exists_def is_dir_def
      example_world_def)

lemma digit_chars: "char_of (48::nat) = CHR ''0''" "char_of (49::nat) = CHR ''1''"
  by code_simp+

lemma example_xtb_files:
  "files (snd (snd (e_g_function example_externals example_mole [''a'', ''bcd''] OptResults_new
                        None None 3 0 (Some [''home'']) example_world)))
     [''home'', ''0'', ''gfnff_topo''] = Some (File ''a'')"
  by (simp add: e_g_function_def evaluate_with_xtb_def working_directories_def
      example_externals_def example_mole_def example_world_def
      times_scalar_def call_run_xtb_def stage_topology_def mkdir_exist_ok_def open_wb_write_def
      path_exists_def is_dir_def shift_last_def py_index_def call_evb_eigenvalues_def
      return_state_1_def Let_def upt_rec normalize_keywords_def digit_chars)

text \<open>
  C5. The staging step of \<^verbatim>\<open>e_g_function\<close> and \<^verbatim>\<open>e_g_function_ci\<close> changes no
  node that exists: a working directory that is there is left alone, and a
  \<^verbatim>\<open>gfnff_topo\<close> that is there is not written, whether or not the step raises. When
  the step succeeds the working directory is a directory and holds \<^verbatim>\<open>gfnff_topo\<close>,
  which has the given topology as content if it was absent before; and staging again in
  the file system so obtained, with any topology, succeeds and changes nothing. For a
  whole invocation with a path given by the caller: if the evaluator \<^verbatim>\<open>run_xtb\<close>
  leaves existing topology files alone, every topology file that exists before the
  invocation is there with the same content after it, however the invocation ends.
\<close>

theorem staging_never_overwrites:
  fixes ext :: "('a::{plus,times}, 'k) externals"
  shows
  "(files0 q \<noteq> None \<longrightarrow> snd (stage_topology topology xtb_path files0) q = files0 q)
   \<and> (stage_topology topology xtb_path files0 = (None, files1)
        \<longrightarrow> is_dir files1 xtb_path
          \<and> files1 (xtb_path @ [''gfnff_topo'']) \<noteq> None
          \<and> (files0 (xtb_path @ [''gfnff_topo'']) = None
                \<longrightarrow> files1 (xtb_path @ [''gfnff_topo'']) = Some (File topology))
          \<and> stage_topology topology' xtb_path files1 = (None, files1))
   \<and> ((\<forall>elems coords p kws xc fs q n.
           fs q = Some n \<and> is_topology_file q
             \<longrightarrow> snd (run_xtb ext elems coords p kws xc fs) q = Some n)
        \<and> files w q = Some n \<and> is_topology_file q
        \<longrightarrow> files (snd (snd (e_g_function ext mol topologies results kws xc e_shift coupling
                                (Some p) w))) q = Some n
          \<and> files (snd (snd (e_g_function_ci ext mol topologies results kws xc e_shift
                                (Some p) w))) q = Some n)"
proof (intro conjI impI)
  assume "files0 q \<noteq> None"
  then show "snd (stage_topology topology xtb_path files0) q = files0 q"
    by (rule stage_topology_keeps)
next
  assume a: "stage_topology topology xtb_path files0 = (None, files1)"
  show "is_dir files1 xtb_path"
    by (rule stage_topology_done(1) [OF a])
  show "files1 (xtb_path @ [''gfnff_topo'']) \<noteq> None"
    by (rule stage_topology_done(2) [OF a])
  show "stage_topology topology' xtb_path files1 = (None, files1)"
    by (rule stage_topology_again [OF a])
  assume "files0 (xtb_path @ [''gfnff_topo'']) = None"
  then show "files1 (xtb_path @ [''gfnff_topo'']) = Some (File topology)"
    by (rule stage_topology_done(3) [OF a])
next
  assume a: "(\<forall>elems coords p kws xc fs q n.
           fs q = Some n \<and> is_topology_file q
             \<longrightarrow> snd (run_xtb ext elems coords p kws xc fs) q = Some n)
        \<and> files w q = Some n \<and> is_topology_file q"
  then have frame: "\<forall>elems coords p kws xc fs q n.
           fs q = Some n \<and> is_topology_file q
             \<longrightarrow> snd (run_xtb ext elems coords p kws xc fs) q = Some n"
    and q: "files w q = Some n" "is_topology_file q"
    by blast+
  show "files (snd (snd (e_g_function ext mol topologies results kws xc e_shift coupling
                                (Some p) w))) q = Some n"
    by (rule e_g_function_keeps_topologies [OF frame q])
  show "files (snd (snd (e_g_function_ci ext mol topologies results kws xc e_shift
                                (Some p) w))) q = Some n"
    by (rule e_g_function_ci_keeps_topologies [OF frame q])
qed

text \<open>
  On the example file system the first staging of the directory \<^verbatim>\<open>home/0\<close> creates
  it and writes the topology \<^verbatim>\<open>a\<close>; staging again with the topology \<^verbatim>\<open>zz\<close> changes
  nothing. After a first invocation of \<^verbatim>\<open>e_g_function\<close> with the topologies \<^verbatim>\<open>a\<close>
  and \<^verbatim>\<open>bcd\<close>, a second invocation of either function in the same directory with the
  topologies \<^verbatim>\<open>x\<close> and \<^verbatim>\<open>y\<close> finds \<^verbatim>\<open>home/0/gfnff_topo\<close> and leaves its content
  \<^verbatim>\<open>a\<close>.
\<close>

theorem staging_never_overwrites_witness:
  "files example_world [''home''] \<noteq> None
   \<and> snd (stage_topology ''a'' [''home'', ''0''] (files example_world)) [''home'']
       = files example_world [''home'']
   \<and> stage_topology ''a'' [''home'', ''0''] (files example_world)
       = (None, (files example_world)([''home'', ''0''] \<mapsto> Dir,
                                      [''home'', ''0'', ''gfnff_topo''] \<mapsto> File ''a''))
   \<and> files example_world ([''home'', ''0''] @ [''gfnff_topo'']) = None
   \<and> ((files example_world)([''home'', ''0''] \<mapsto> Dir, [''home'', ''0'', ''gfnff_topo''] \<mapsto> File ''a''))
        ([''home'', ''0''] @ [''gfnff_topo'']) = Some (File ''a'')
   \<and> stage_topology ''zz'' [''home'', ''0'']
        ((files example_world)([''home'', ''0''] \<mapsto> Dir, [''home'', ''0'', ''gfnff_topo''] \<mapsto> File ''a''))
       = (None, (files example_world)([''home'', ''0''] \<mapsto> Dir,
                                      [''home'', ''0'', ''gfnff_topo''] \<mapsto> File ''a''))
   \<and> files (snd (snd (e_g_function example_externals example_mole [''a'', ''bcd''] OptResults_new
                        None None 3 0 (Some [''home'']) example_world)))
        [''home'', ''0'', ''gfnff_topo''] = Some (File ''a'')
   \<and> is_topology_file [''home'', ''0'', ''gfnff_topo'']
   \<and> files (snd (snd (e_g_function example_externals example_mole [''x'', ''y''] OptResults_new
                        None None 3 0 (Some [''home''])
                        (snd (snd (e_g_function example_externals example_mole [''a'', ''bcd'']
                                     OptResults_new None None 3 0 (Some [''home'']) example_world))))))
        [''home'', ''0'', ''gfnff_topo''] = Some (File ''a'')
   \<and> files (snd (snd (e_g_function_ci example_externals example_mole [''x'', ''y''] OptResults_new
                        None None 3 (Some [''home''])
                        (snd (snd (e_g_function example_externals example_mole [''a'', ''bcd'']
                                     OptResults_new None None 3 0 (Some [''home'']) example_world))))))
        [''home'', ''0'', ''gfnff_topo''] = Some (File ''a'')"
proof -
  let ?F0 = "files example_world"
  let ?F1 = "(files example_world)([''home'', ''0''] \<mapsto> Dir, [''home'', ''0'', ''gfnff_topo''] \<mapsto> File ''a'')"
  let ?W1 = "snd (snd (e_g_function example_externals example_mole [''a'', ''bcd''] OptResults_new
                        None None 3 0 (Some [''home'']) example_world))"
  let ?q = "[''home'', ''0'', ''gfnff_topo'']"
  have h: "?F0 [''home''] \<noteq> None" and a: "?F0 ([''home'', ''0''] @ [''gfnff_topo'']) = None"
    by (simp_all add: example_world_def)
  have tq: "is_topology_file ?q"
    by (simp add: is_topology_file_def)
  note inst = staging_never_overwrites [where ext = example_externals and topology = "''a''"
      and xtb_path = "[''home'', ''0'']" and ?files0.0 = ?F0 and mol = example_mole
      and results = OptResults_new and kws = None and xc = None and e_shift = 3 and coupling = 0
      and p = "[''home'']"]
  from inst [where q = "[''home'']", THEN conjunct1] h
  have c1: "snd (stage_topology ''a'' [''home'', ''0''] ?F0) [''home''] = ?F0 [''home'']"
    by blast
  from inst [where ?files1.0 = ?F1 and topology' = "''zz''", THEN conjunct2, THEN conjunct1]
    example_staging a
  have c2: "?F1 ([''home'', ''0''] @ [''gfnff_topo'']) = Some (File ''a'')"
    and c3: "stage_topology ''zz'' [''home'', ''0''] ?F1 = (None, ?F1)"
    by blast+
  from inst [where w = ?W1 and q = ?q and n = "File ''a''" and topologies = "[''x'', ''y'']",
      THEN conjunct2, THEN conjunct2] example_run_xtb_frame example_xtb_files tq
  have c4: "files (snd (snd (e_g_function example_externals example_mole [''x'', ''y''] OptResults_new
                        None None 3 0 (Some [''home'']) ?W1))) ?q = Some (File ''a'')"
    and c5: "files (snd (snd (e_g_function_ci example_externals example_mole [''x'', ''y''] OptResults_new
                        None None 3 (Some [''home'']) ?W1))) ?q = Some (File ''a'')"
    by blast+
  from h c1 example_staging a c2 c3 example_xtb_files tq c4 c5 show ?thesis
    by (intro conjI)
qed

section \<open>Properties of the conical-intersection engine\<close>

lemma with_suffix_distinct:
  "with_suffix tmpf ''_optim.xyz'' \<noteq> with_suffix tmpf ''.tmp''"
  "\<not> is_under (with_suffix tmpf ''.tmp'') (with_suffix tmpf ''_optim.xyz'')"
  "with_suffix tmpf s \<noteq> []"
  by (simp_all add: with_suffix_def is_under_def)

lemma is_under_refl: "is_under p p"
  by (simp add: is_under_def)

lemma remove_temporary_files_result:
  assumes "remove_temporary_files tmpf fs = (None, fs')"
  shows "fs' (with_suffix tmpf ''_optim.xyz'') = None
         \<and> fs' (with_suffix tmpf ''.tmp'') = None
         \<and> (\<forall>q. fs (with_suffix tmpf ''.tmp'') \<noteq> None \<and> is_under (with_suffix tmpf ''.tmp'') q
                \<longrightarrow> fs' q = None)
         \<and> (\<forall>q. q \<noteq> with_suffix tmpf ''_optim.xyz'' \<and> \<not> is_under (with_suffix tmpf ''.tmp'') q
                \<longrightarrow> fs' q = fs q)"
proof -
  let ?xyz = "with_suffix tmpf ''_optim.xyz''" and ?tmp = "with_suffix tmpf ''.tmp''"
  define fs1 where "fs1 = (if path_exists fs ?xyz then fs(?xyz := None) else fs)"
  have ex: "path_exists g ?xyz \<longleftrightarrow> g ?xyz \<noteq> None" "path_exists g ?tmp \<longleftrightarrow> g ?tmp \<noteq> None" for g
    by (simp_all add: path_exists_def with_suffix_distinct)
  from assms have r1: "(if path_exists fs ?xyz then os_remove ?xyz fs else Inr fs) = Inr fs1"
    by (auto simp: remove_temporary_files_def fs1_def os_remove_def
        split: sum.splits if_splits option.splits node.splits)
  with assms have r2: "(if path_exists fs1 ?tmp then shutil_rmtree ?tmp fs1 else Inr fs1) = Inr fs'"
    by (auto simp: remove_temporary_files_def split: sum.splits)
  have x1: "fs1 ?xyz = None"
    by (simp add: fs1_def ex)
  have o1: "q \<noteq> ?xyz \<Longrightarrow> fs1 q = fs q" for q
    by (simp add: fs1_def)
  from r2 have cases: "(fs1 ?tmp = None \<and> fs' = fs1) \<or> (fs1 ?tmp = Some Dir \<and> fs' = remove_tree ?tmp fs1)"
    by (auto simp: ex shutil_rmtree_def split: if_splits option.splits node.splits)
  have t1: "fs1 ?tmp = fs ?tmp"
    using with_suffix_distinct(1) [of tmpf] by (simp add: o1)
  from cases show ?thesis
  proof
    assume a: "fs1 ?tmp = None \<and> fs' = fs1"
    with x1 o1 t1 show ?thesis by simp
  next
    assume a: "fs1 ?tmp = Some Dir \<and> fs' = remove_tree ?tmp fs1"
    with x1 o1 with_suffix_distinct(2) [of tmpf] show ?thesis
      by (simp add: remove_tree_def is_under_refl)
  qed
qed

lemma remove_temporary_files_runs:
  assumes "fs (with_suffix tmpf ''_optim.xyz'') \<noteq> Some Dir"
    and "\<forall>d. fs (with_suffix tmpf ''.tmp'') \<noteq> Some (File d)"
  shows "\<exists>fs'. remove_temporary_files tmpf fs = (None, fs')"
proof -
  let ?xyz = "with_suffix tmpf ''_optim.xyz''" and ?tmp = "with_suffix tmpf ''.tmp''"
  have ex: "path_exists g ?xyz \<longleftrightarrow> g ?xyz \<noteq> None" "path_exists g ?tmp \<longleftrightarrow> g ?tmp \<noteq> None" for g
    by (simp_all add: path_exists_def with_suffix_distinct)
  have "\<exists>fs1. (if path_exists fs ?xyz then os_remove ?xyz fs else Inr fs) = Inr fs1
           \<and> fs1 ?tmp = fs ?tmp"
  proof (cases "fs ?xyz")
    case None
    then show ?thesis by (simp add: ex)
  next
    case (Some a)
    with assms(1) obtain d where "a = File d" by (cases a) auto
    with Some with_suffix_distinct(1) [of tmpf] show ?thesis
      by (simp add: ex os_remove_def)
  qed
  then obtain fs1 where r1: "(if path_exists fs ?xyz then os_remove ?xyz fs else Inr fs) = Inr fs1"
    and t1: "fs1 ?tmp = fs ?tmp"
    by blast
  have "\<exists>fs2. (if path_exists fs1 ?tmp then shutil_rmtree ?tmp fs1 else Inr fs1) = Inr fs2"
  proof (cases "fs1 ?tmp")
    case None
    then show ?thesis by (simp add: ex)
  next
    case (Some a)
    have "a = Dir"
    proof (cases a)
      case (File d)
      with Some t1 have "fs ?tmp = Some (File d)" by simp
      with assms(2) show ?thesis by blast
    qed simp
    with Some show ?thesis
      by (simp add: ex shutil_rmtree_def)
  qed
  then obtain fs2 where r2: "(if path_exists fs1 ?tmp then shutil_rmtree ?tmp fs1 else Inr fs1) = Inr fs2"
    by blast
  from r1 r2 show ?thesis
    by (simp add: remove_temporary_files_def)
qed






lemma optimize_ci_run:
  assumes "g_scanners_loop include_ghost methods [] = Inr g_scanners"
    and "py_index g_scanners 0 = Inr g0" and "py_index g_scanners 1 = Inr g1"
    and "mktemp (lib_param_TMPDIR ext) (tempfile_names ext) (files w) = Inr tmpf"
    and "call_run_optimizer run_optimizer
           (conical_intersection_engine g0 g1 cb maxsteps alpha sigma assert_convergence)
           tmpf cons (kwargs(''logIni'' \<mapsto> log_ini ext)) w = (outcome, engine', w1)"
  shows "optimize_ci run_optimizer ext methods assert_convergence include_ghost cons cb maxsteps
           alpha sigma kwargs w
         = (case outcome of
              None \<Rightarrow> remove_and_return tmpf True (ci_mol engine') w1
            | Some (NotConvergedError msg) \<Rightarrow>
                remove_and_return tmpf False (ci_mol engine') (logger_note msg w1)
            | Some e \<Rightarrow> (Inl e, w1))"
  using assms
  by (simp add: optimize_ci_def Let_def split: option.splits error.splits)

lemma example_g_scanners:
  "g_scanners_loop True example_methods [] = Inr [example_scanner 5 0, example_scanner 7 3]"
  by (simp add: example_methods_def as_pyscf_method_def example_scanner_def)

lemma example_g_scanner_indices:
  "py_index [example_scanner 5 0, example_scanner 7 3] 0 = Inr (example_scanner 5 0)"
  "py_index [example_scanner 5 0, example_scanner 7 3] 1 = Inr (example_scanner 7 3)"
  by (simp_all add: py_index_def)

lemma example_tmpf:
  "mktemp (lib_param_TMPDIR example_externals) (tempfile_names example_externals) (files example_world)
     = Inr [''tmp'', ''t0'']"
  by (simp add: example_externals_def example_world_def path_exists_def)

lemma example_suffixes:
  "with_suffix [''tmp'', ''t0''] ''_optim.xyz'' = [''tmp'', ''t0_optim.xyz'']"
  "with_suffix [''tmp'', ''t0''] ''.tmp'' = [''tmp'', ''t0.tmp'']"
  by (simp_all add: with_suffix_def)

text \<open>
  What \<^verbatim>\<open>optimize_ci\<close> removes. Let the set-up succeed (two scanners,
  a temporary name \<open>tmpf\<close>) and let the optimizer be run. When it returns, or raises
  \<^verbatim>\<open>NotConvergedError\<close>, and the coordinate file is not a directory and the
  \<^verbatim>\<open>.tmp\<close> entry is not a regular file, then \<^verbatim>\<open>optimize_ci\<close> returns the
  convergence flag with the engine's molecule, and in the file system it leaves neither
  \<open>tmpf_optim.xyz\<close> nor \<open>tmpf.tmp\<close> exists, everything below a \<^verbatim>\<open>.tmp\<close> directory
  the optimizer left is gone, and every other path is as the optimizer left it; this
  holds whichever of the two artifacts exist. When the optimizer raises any other
  exception, that exception leaves \<^verbatim>\<open>optimize_ci\<close> at once and the world is exactly as
  the optimizer left it: nothing is removed.
\<close>

theorem temporary_files_removed_unless_optimizer_fails:
  assumes "g_scanners_loop include_ghost methods [] = Inr g_scanners"
    and "py_index g_scanners 0 = Inr g0" and "py_index g_scanners 1 = Inr g1"
    and "mktemp (lib_param_TMPDIR ext) (tempfile_names ext) (files w) = Inr tmpf"
    and "call_run_optimizer run_optimizer
           (conical_intersection_engine g0 g1 cb maxsteps alpha sigma assert_convergence)
           tmpf cons (kwargs(''logIni'' \<mapsto> log_ini ext)) w = (outcome, engine', w1)"
  shows "((outcome = None \<or> (\<exists>msg. outcome = Some (NotConvergedError msg)))
            \<and> files w1 (with_suffix tmpf ''_optim.xyz'') \<noteq> Some Dir
            \<and> (\<forall>d. files w1 (with_suffix tmpf ''.tmp'') \<noteq> Some (File d))
          \<longrightarrow> (\<exists>w'. optimize_ci run_optimizer ext methods assert_convergence include_ghost cons cb
                        maxsteps alpha sigma kwargs w
                      = (Inr (outcome = None, ci_mol engine'), w')
                 \<and> files w' (with_suffix tmpf ''_optim.xyz'') = None
                 \<and> files w' (with_suffix tmpf ''.tmp'') = None
                 \<and> (\<forall>q. files w1 (with_suffix tmpf ''.tmp'') \<noteq> None
                          \<and> is_under (with_suffix tmpf ''.tmp'') q \<longrightarrow> files w' q = None)
                 \<and> (\<forall>q. q \<noteq> with_suffix tmpf ''_optim.xyz''
                          \<and> \<not> is_under (with_suffix tmpf ''.tmp'') q \<longrightarrow> files w' q = files w1 q)))
         \<and> (\<forall>e. outcome = Some e \<and> (\<forall>msg. e \<noteq> NotConvergedError msg)
               \<longrightarrow> optimize_ci run_optimizer ext methods assert_convergence include_ghost cons cb
                        maxsteps alpha sigma kwargs w = (Inl e, w1))"
proof (intro conjI impI allI)
  assume a: "(outcome = None \<or> (\<exists>msg. outcome = Some (NotConvergedError msg)))
            \<and> files w1 (with_suffix tmpf ''_optim.xyz'') \<noteq> Some Dir
            \<and> (\<forall>d. files w1 (with_suffix tmpf ''.tmp'') \<noteq> Some (File d))"
  define w2 where "w2 = (case outcome of Some (NotConvergedError msg) \<Rightarrow> logger_note msg w1 | _ \<Rightarrow> w1)"
  have f2: "files w2 = files w1"
    by (auto simp: w2_def logger_note_def split: option.splits error.splits)
  from a have run: "optimize_ci run_optimizer ext methods assert_convergence include_ghost cons cb
                        maxsteps alpha sigma kwargs w
                    = remove_and_return tmpf (outcome = None) (ci_mol engine') w2"
    by (auto simp: optimize_ci_run [OF assms] w2_def)
  from a f2 remove_temporary_files_runs [of "files w2" tmpf]
  obtain fs' where rm: "remove_temporary_files tmpf (files w2) = (None, fs')"
    by auto
  with run have res: "optimize_ci run_optimizer ext methods assert_convergence include_ghost cons cb
                        maxsteps alpha sigma kwargs w
                      = (Inr (outcome = None, ci_mol engine'), w2\<lparr>files := fs'\<rparr>)"
    by (simp add: remove_and_return_def)
  from remove_temporary_files_result [OF rm] f2 res
  show "\<exists>w'. optimize_ci run_optimizer ext methods assert_convergence include_ghost cons cb
                        maxsteps alpha sigma kwargs w
                      = (Inr (outcome = None, ci_mol engine'), w')
                 \<and> files w' (with_suffix tmpf ''_optim.xyz'') = None
                 \<and> files w' (with_suffix tmpf ''.tmp'') = None
                 \<and> (\<forall>q. files w1 (with_suffix tmpf ''.tmp'') \<noteq> None
                          \<and> is_under (with_suffix tmpf ''.tmp'') q \<longrightarrow> files w' q = None)
                 \<and> (\<forall>q. q \<noteq> with_suffix tmpf ''_optim.xyz''
                          \<and> \<not> is_under (with_suffix tmpf ''.tmp'') q \<longrightarrow> files w' q = files w1 q)"
    by (intro exI [of _ "w2\<lparr>files := fs'\<rparr>"]) simp
next
  fix e
  assume "outcome = Some e \<and> (\<forall>msg. e \<noteq> NotConvergedError msg)"
  then show "optimize_ci run_optimizer ext methods assert_convergence include_ghost cons cb
                        maxsteps alpha sigma kwargs w = (Inl e, w1)"
    by (cases e) (auto simp: optimize_ci_run [OF assms])
qed

text \<open>
  C3. The removal of the temporary files (lines 619 to 623, under the comment
  \<^verbatim>\<open># Remove the temporary files created by geomeTRIC\<close>) follows the
  \<^verbatim>\<open>try\<close> statement, which handles \<^verbatim>\<open>NotConvergedError\<close> only, and there is no
  \<^verbatim>\<open>finally\<close>. On the third termination path the removal is therefore skipped: the
  optimizer stand-in that writes both artifacts and then raises another exception, as a
  failing evaluator does, makes \<^verbatim>\<open>optimize_ci\<close> raise that exception, and the
  coordinate file, the \<^verbatim>\<open>.tmp\<close> directory and the file in it are all still there
  afterwards.
\<close>

theorem optimize_ci_keeps_artifacts_when_optimizer_fails:
  "fst (optimize_ci example_failing example_externals example_methods True True None None 100 25 35
          Map.empty example_world) = Inl (ExternalError ''evaluator'')
   \<and> files (snd (optimize_ci example_failing example_externals example_methods True True None None
                   100 25 35 Map.empty example_world)) [''tmp'', ''t0_optim.xyz''] = Some (File ''xyz'')
   \<and> files (snd (optimize_ci example_failing example_externals example_methods True True None None
                   100 25 35 Map.empty example_world)) [''tmp'', ''t0.tmp''] = Some Dir
   \<and> files (snd (optimize_ci example_failing example_externals example_methods True True None None
                   100 25 35 Map.empty example_world)) [''tmp'', ''t0.tmp'', ''log''] = Some (File ''log'')"
  by (simp add: optimize_ci_def example_g_scanners example_g_scanner_indices example_tmpf
      call_run_optimizer_def example_failing_def example_suffixes Let_def)

text \<open>
  With the optimizer stand-in that returns after writing both artifacts, and with the
  one that raises \<^verbatim>\<open>NotConvergedError\<close> after writing the coordinate file only,
  \<^verbatim>\<open>optimize_ci\<close> returns and neither artifact is left; with the failing stand-in the
  exception leaves the function.
\<close>

theorem temporary_files_removed_unless_optimizer_fails_witness:
  "g_scanners_loop True example_methods [] = Inr [example_scanner 5 0, example_scanner 7 3]
   \<and> mktemp (lib_param_TMPDIR example_externals) (tempfile_names example_externals)
        (files example_world) = Inr [''tmp'', ''t0'']
   \<and> fst (optimize_ci example_converging example_externals example_methods True True None None
            100 25 35 Map.empty example_world) = Inr (True, example_mole)
   \<and> files (snd (optimize_ci example_converging example_externals example_methods True True None None
                   100 25 35 Map.empty example_world)) [''tmp'', ''t0_optim.xyz''] = None
   \<and> files (snd (optimize_ci example_converging example_externals example_methods True True None None
                   100 25 35 Map.empty example_world)) [''tmp'', ''t0.tmp''] = None
   \<and> files (snd (optimize_ci example_converging example_externals example_methods True True None None
                   100 25 35 Map.empty example_world)) [''tmp'', ''t0.tmp'', ''log''] = None
   \<and> files (snd (optimize_ci example_converging example_externals example_methods True True None None
                   100 25 35 Map.empty example_world)) [''home''] = Some Dir
   \<and> fst (optimize_ci example_not_converging example_externals example_methods True True None None
            100 25 35 Map.empty example_world) = Inr (False, example_mole)
   \<and> files (snd (optimize_ci example_not_converging example_externals example_methods True True None
                   None 100 25 35 Map.empty example_world)) [''tmp'', ''t0_optim.xyz''] = None
   \<and> fst (optimize_ci example_failing example_externals example_methods True True None None
            100 25 35 Map.empty example_world) = Inl (ExternalError ''evaluator'')"
proof -
  let ?engine = "conical_intersection_engine (example_scanner 5 0) (example_scanner 7 3) None 100 25 35 True"
  let ?kw = "(Map.empty :: string \<rightharpoonup> string)(''logIni'' \<mapsto> log_ini example_externals)"
  let ?xyz = "[''tmp'', ''t0_optim.xyz'']" and ?tmp = "[''tmp'', ''t0.tmp'']"
  let ?RC = "call_run_optimizer example_converging ?engine [''tmp'', ''t0''] None ?kw example_world"
  let ?RN = "call_run_optimizer example_not_converging ?engine [''tmp'', ''t0''] None ?kw example_world"
  let ?RF = "call_run_optimizer example_failing ?engine [''tmp'', ''t0''] None ?kw example_world"
  let ?OC = "optimize_ci example_converging example_externals example_methods True True None None
               100 25 35 Map.empty example_world"
  let ?ON = "optimize_ci example_not_converging example_externals example_methods True True None None
               100 25 35 Map.empty example_world"
  let ?OF = "optimize_ci example_failing example_externals example_methods True True None None
               100 25 35 Map.empty example_world"
  have mol: "ci_mol ?engine = example_mole"
    by (simp add: conical_intersection_engine_def example_scanner_def example_mole_def Let_def)
  have rc: "?RC = (None, ?engine, snd (snd ?RC))"
    and rn: "?RN = (Some (NotConvergedError ''not converged''), ?engine, snd (snd ?RN))"
    and rf: "?RF = (Some (ExternalError ''evaluator''), ?engine, snd (snd ?RF))"
    by (simp_all add: call_run_optimizer_def example_converging_def example_not_converging_def
        example_failing_def)
  have fc: "files (snd (snd ?RC)) ?xyz \<noteq> Some Dir" "\<forall>d. files (snd (snd ?RC)) ?tmp \<noteq> Some (File d)"
      "files (snd (snd ?RC)) ?tmp \<noteq> None" "files (snd (snd ?RC)) [''home''] = Some Dir"
    and fn: "files (snd (snd ?RN)) ?xyz \<noteq> Some Dir" "\<forall>d. files (snd (snd ?RN)) ?tmp \<noteq> Some (File d)"
    by (simp_all add: call_run_optimizer_def example_converging_def example_not_converging_def
        example_suffixes example_world_def)
  note inst = temporary_files_removed_unless_optimizer_fails [where ext = example_externals
      and kwargs = Map.empty, OF example_g_scanners example_g_scanner_indices example_tmpf]
  from inst [OF rc, THEN conjunct1] fc
  obtain wc where oc: "?OC = (Inr (True, ci_mol ?engine), wc)"
    and xc: "files wc ?xyz = None" "files wc ?tmp = None"
    and uc: "\<forall>q. is_under ?tmp q \<longrightarrow> files wc q = None"
    and kc: "\<forall>q. q \<noteq> ?xyz \<and> \<not> is_under ?tmp q \<longrightarrow> files wc q = files (snd (snd ?RC)) q"
    by (auto simp: example_suffixes)
  from uc have lc: "files wc [''tmp'', ''t0.tmp'', ''log''] = None"
    by (simp add: is_under_def)
  from kc fc(4) have hc: "files wc [''home''] = Some Dir"
    by (simp add: is_under_def)
  from inst [OF rn, THEN conjunct1] fn
  obtain wn where on: "?ON = (Inr (False, ci_mol ?engine), wn)"
    and xn: "files wn ?xyz = None"
    by (auto simp: example_suffixes)
  from inst [OF rf, THEN conjunct2]
  have "?OF = (Inl (ExternalError ''evaluator''), snd (snd ?RF))"
    by simp
  with example_g_scanners example_tmpf oc xc lc hc on xn mol show ?thesis
    by simp
qed

section \<open>Non-convergence in the conical-intersection optimizer\<close>













section \<open>Properties of the drivers\<close>

lemma select_solver_None_iff:
  "select_solver solver = None \<longleftrightarrow> solver \<noteq> ''pyberny'' \<and> solver \<noteq> ''geometric''"
  by (simp add: select_solver_def)

lemma ts_from_gfnff_unbound:
  fixes ext :: "('a::{plus,times}, 'k) externals"
  assumes "select_solver solver = None"
  shows "ts_from_gfnff optimize ext elems coords0 topologies kws xc e_shift coupling maxsteps cb
           conv_params solver path w
         = (case (case path of None \<Rightarrow> Inr (files w) | Some p \<Rightarrow> mkdir_exist_ok p (files w)) of
              Inl e \<Rightarrow> (Inl e, w)
            | Inr fs1 \<Rightarrow>
                (case get_pyscf_mole ext elems coords0 of
                   Inl e \<Rightarrow> (Inl e, w\<lparr>files := fs1\<rparr>)
                 | Inr mole \<Rightarrow> (Inl (UnboundLocalError ''pyscf_solver''), w\<lparr>files := fs1\<rparr>)))"
  using assms by (simp add: ts_from_gfnff_def Let_def split: sum.splits)

lemma ts_from_gfnff_python_unbound:
  fixes ext :: "('a::{plus,times}, 'k) externals"
  assumes "select_solver solver = None"
  shows "ts_from_gfnff_python optimize ext elems coords0 calculators e_shift coupling maxsteps cb
           conv_params solver path w
         = (case (case path of None \<Rightarrow> Inr (files w) | Some p \<Rightarrow> mkdir_exist_ok p (files w)) of
              Inl e \<Rightarrow> (Inl e, w)
            | Inr fs1 \<Rightarrow>
                (case get_pyscf_mole ext elems coords0 of
                   Inl e \<Rightarrow> (Inl e, w\<lparr>files := fs1\<rparr>)
                 | Inr mole \<Rightarrow> (Inl (UnboundLocalError ''pyscf_solver''), w\<lparr>files := fs1\<rparr>)))"
  using assms by (auto simp: ts_from_gfnff_python_def Let_def split: sum.splits option.splits)

lemma unbound_outcome:
  assumes "r = (case ps of
              Inl e \<Rightarrow> (Inl e, w)
            | Inr fs1 \<Rightarrow>
                (case gm of
                   Inl e \<Rightarrow> (Inl e, w\<lparr>files := fs1\<rparr>)
                 | Inr mole \<Rightarrow> (Inl (UnboundLocalError ''pyscf_solver''), w\<lparr>files := fs1\<rparr>)))"
  shows "trace (snd r) = trace w \<and> calculator_store (snd r) = calculator_store w
         \<and> (\<forall>res. fst r \<noteq> Inr res)"
  using assms by (auto split: sum.splits)

text \<open>
  C9, as the code has it. With a solver name that is neither \<^verbatim>\<open>pyberny\<close> nor
  \<^verbatim>\<open>geometric\<close> the selection binds nothing, and what \<^verbatim>\<open>ts_from_gfnff\<close> and
  \<^verbatim>\<open>ts_from_gfnff_python\<close> do is fixed by the two steps before the selection alone:
  when the directory of the path cannot be made the call raises the exception of
  \<^verbatim>\<open>mkdir\<close>; else, when the molecule cannot be built, the exception of
  \<^verbatim>\<open>get_pyscf_mole\<close>; else \<^verbatim>\<open>UnboundLocalError\<close> for \<^verbatim>\<open>pyscf_solver\<close>. The outcome
  does not depend on the optimizer, which is never called: no result is returned, the
  trace and the calculators are as before the call, and of the world only the
  directory of the path may be new.
\<close>

theorem unknown_solver_fails_before_any_optimizer_step:
  fixes ext :: "('a::{plus,times}, 'k) externals"
  shows "solver \<noteq> ''pyberny'' \<and> solver \<noteq> ''geometric'' \<longrightarrow>
       select_solver solver = None
     \<and> ts_from_gfnff optimize ext elems coords0 topologies kws xc e_shift coupling maxsteps cb
           conv_params solver path w
         = (case (case path of None \<Rightarrow> Inr (files w) | Some p \<Rightarrow> mkdir_exist_ok p (files w)) of
              Inl e \<Rightarrow> (Inl e, w)
            | Inr fs1 \<Rightarrow>
                (case get_pyscf_mole ext elems coords0 of
                   Inl e \<Rightarrow> (Inl e, w\<lparr>files := fs1\<rparr>)
                 | Inr mole \<Rightarrow> (Inl (UnboundLocalError ''pyscf_solver''), w\<lparr>files := fs1\<rparr>)))
     \<and> ts_from_gfnff_python optimize ext elems coords0 calculators e_shift coupling maxsteps cb
           conv_params solver path w
         = (case (case path of None \<Rightarrow> Inr (files w) | Some p \<Rightarrow> mkdir_exist_ok p (files w)) of
              Inl e \<Rightarrow> (Inl e, w)
            | Inr fs1 \<Rightarrow>
                (case get_pyscf_mole ext elems coords0 of
                   Inl e \<Rightarrow> (Inl e, w\<lparr>files := fs1\<rparr>)
                 | Inr mole \<Rightarrow> (Inl (UnboundLocalError ''pyscf_solver''), w\<lparr>files := fs1\<rparr>)))
     \<and> trace (snd (ts_from_gfnff optimize ext elems coords0 topologies kws xc e_shift coupling
                      maxsteps cb conv_params solver path w)) = trace w
     \<and> calculator_store (snd (ts_from_gfnff optimize ext elems coords0 topologies kws xc e_shift
                                 coupling maxsteps cb conv_params solver path w))
         = calculator_store w
     \<and> (\<forall>res. fst (ts_from_gfnff optimize ext elems coords0 topologies kws xc e_shift coupling
                       maxsteps cb conv_params solver path w) \<noteq> Inr res)
     \<and> trace (snd (ts_from_gfnff_python optimize ext elems coords0 calculators e_shift coupling
                      maxsteps cb conv_params solver path w)) = trace w
     \<and> calculator_store (snd (ts_from_gfnff_python optimize ext elems coords0 calculators e_shift
                                 coupling maxsteps cb conv_params solver path w))
         = calculator_store w
     \<and> (\<forall>res. fst (ts_from_gfnff_python optimize ext elems coords0 calculators e_shift coupling
                       maxsteps cb conv_params solver path w) \<noteq> Inr res)"
proof
  assume "solver \<noteq> ''pyberny'' \<and> solver \<noteq> ''geometric''"
  then have sel: "select_solver solver = None"
    by (simp add: select_solver_None_iff)
  note x = ts_from_gfnff_unbound [OF sel, of optimize ext elems coords0 topologies kws xc e_shift
      coupling maxsteps cb conv_params path w]
  note p = ts_from_gfnff_python_unbound [OF sel, of optimize ext elems coords0 calculators e_shift
      coupling maxsteps cb conv_params path w]
  from sel x p unbound_outcome [OF x] unbound_outcome [OF p]
  show "select_solver solver = None
     \<and> ts_from_gfnff optimize ext elems coords0 topologies kws xc e_shift coupling maxsteps cb
           conv_params solver path w
         = (case (case path of None \<Rightarrow> Inr (files w) | Some p \<Rightarrow> mkdir_exist_ok p (files w)) of
              Inl e \<Rightarrow> (Inl e, w)
            | Inr fs1 \<Rightarrow>
                (case get_pyscf_mole ext elems coords0 of
                   Inl e \<Rightarrow> (Inl e, w\<lparr>files := fs1\<rparr>)
                 | Inr mole \<Rightarrow> (Inl (UnboundLocalError ''pyscf_solver''), w\<lparr>files := fs1\<rparr>)))
     \<and> ts_from_gfnff_python optimize ext elems coords0 calculators e_shift coupling maxsteps cb
           conv_params solver path w
         = (case (case path of None \<Rightarrow> Inr (files w) | Some p \<Rightarrow> mkdir_exist_ok p (files w)) of
              Inl e \<Rightarrow> (Inl e, w)
            | Inr fs1 \<Rightarrow>
                (case get_pyscf_mole ext elems coords0 of
                   Inl e \<Rightarrow> (Inl e, w\<lparr>files := fs1\<rparr>)
                 | Inr mole \<Rightarrow> (Inl (UnboundLocalError ''pyscf_solver''), w\<lparr>files := fs1\<rparr>)))
     \<and> trace (snd (ts_from_gfnff optimize ext elems coords0 topologies kws xc e_shift coupling
                      maxsteps cb conv_params solver path w)) = trace w
     \<and> calculator_store (snd (ts_from_gfnff optimize ext elems coords0 topologies kws xc e_shift
                                 coupling maxsteps cb conv_params solver path w))
         = calculator_store w
     \<and> (\<forall>res. fst (ts_from_gfnff optimize ext elems coords0 topologies kws xc e_shift coupling
                       maxsteps cb conv_params solver path w) \<noteq> Inr res)
     \<and> trace (snd (ts_from_gfnff_python optimize ext elems coords0 calculators e_shift coupling
                      maxsteps cb conv_params solver path w)) = trace w
     \<and> calculator_store (snd (ts_from_gfnff_python optimize ext elems coords0 calculators e_shift
                                 coupling maxsteps cb conv_params solver path w))
         = calculator_store w
     \<and> (\<forall>res. fst (ts_from_gfnff_python optimize ext elems coords0 calculators e_shift coupling
                       maxsteps cb conv_params solver path w) \<noteq> Inr res)"
    by (intro conjI) blast+
qed

text \<open>
  The claim as stated fails when a step before the selection fails. With the unknown
  solver name \<^verbatim>\<open>scipy\<close> and a path whose parent directory does not exist, both drivers
  raise \<^verbatim>\<open>FileNotFoundError\<close> from \<^verbatim>\<open>path.mkdir(exist_ok=True)\<close>, not the
  unbound-variable error: the selection is never reached.
\<close>

theorem unknown_solver_unbound_error_counterexample:
  "select_solver ''scipy'' = None
   \<and> fst (ts_from_gfnff example_optimize example_externals
            [Atomic_symbol ''H'', Atomic_symbol ''H''] [[0, 0, 0], [1, 0, 0]] [''a'', ''bcd''] None None
            3 0 100 None None ''scipy'' (Some [''missing'', ''run'']) example_world)
       = Inl FileNotFoundError
   \<and> fst (ts_from_gfnff_python example_optimize example_externals
            [Atomic_symbol ''H'', Atomic_symbol ''H''] [[0, 0, 0], [1, 0, 0]] [5, 7]
            3 0 100 None None ''scipy'' (Some [''missing'', ''run'']) example_world)
       = Inl FileNotFoundError"
  by (simp add: select_solver_def ts_from_gfnff_def ts_from_gfnff_python_def mkdir_exist_ok_def
      path_exists_def is_dir_def example_world_def Let_def)

text \<open>
  With the solver name \<^verbatim>\<open>scipy\<close>, no path or a path in the existing directory
  \<^verbatim>\<open>home\<close>, and the example molecule, both drivers raise \<^verbatim>\<open>UnboundLocalError\<close>; the
  optimizer stand-in, which would call the bridge, leaves no event in the trace, and
  the directory of the path has been made.
\<close>

theorem unknown_solver_fails_before_any_optimizer_step_witness:
  "''scipy'' \<noteq> ''pyberny'' \<and> ''scipy'' \<noteq> ''geometric''
   \<and> select_solver ''scipy'' = None
   \<and> fst (ts_from_gfnff example_optimize example_externals
            [Atomic_symbol ''H'', Atomic_symbol ''H''] [[0, 0, 0], [1, 0, 0]] [''a'', ''bcd''] None None
            3 0 100 None None ''scipy'' (Some [''home'', ''run'']) example_world)
       = Inl (UnboundLocalError ''pyscf_solver'')
   \<and> files (snd (ts_from_gfnff example_optimize example_externals
            [Atomic_symbol ''H'', Atomic_symbol ''H''] [[0, 0, 0], [1, 0, 0]] [''a'', ''bcd''] None None
            3 0 100 None None ''scipy'' (Some [''home'', ''run'']) example_world)) [''home'', ''run'']
       = Some Dir
   \<and> trace (snd (ts_from_gfnff example_optimize example_externals
            [Atomic_symbol ''H'', Atomic_symbol ''H''] [[0, 0, 0], [1, 0, 0]] [''a'', ''bcd''] None None
            3 0 100 None None ''scipy'' (Some [''home'', ''run'']) example_world)) = []
   \<and> fst (ts_from_gfnff_python example_optimize example_externals
            [Atomic_symbol ''H'', Atomic_symbol ''H''] [[0, 0, 0], [1, 0, 0]] [5, 7]
            3 0 100 None None ''scipy'' None example_world)
       = Inl (UnboundLocalError ''pyscf_solver'')
   \<and> trace (snd (ts_from_gfnff_python example_optimize example_externals
            [Atomic_symbol ''H'', Atomic_symbol ''H''] [[0, 0, 0], [1, 0, 0]] [5, 7]
            3 0 100 None None ''scipy'' None example_world)) = []"
proof -
  have ne: "''scipy'' \<noteq> ''pyberny'' \<and> ''scipy'' \<noteq> ''geometric''"
    by simp
  have mk: "mkdir_exist_ok [''home'', ''run''] (files example_world)
              = Inr ((files example_world)([''home'', ''run''] \<mapsto> Dir))"
    by (simp add: mkdir_exist_ok_def path_exists_def is_dir_def example_world_def)
  have t0: "trace example_world = []"
    by (simp add: example_world_def)
  note x = unknown_solver_fails_before_any_optimizer_step [rule_format, OF ne,
      where optimize = example_optimize and ext = example_externals
        and elems = "[Atomic_symbol ''H'', Atomic_symbol ''H'']" and ?coords0.0 = "[[0, 0, 0], [1, 0, 0]]"
        and topologies = "[''a'', ''bcd'']" and kws = None and xc = None and e_shift = 3
        and coupling = 0 and maxsteps = 100 and cb = None and conv_params = None
        and path = "Some [''home'', ''run'']" and w = example_world]
  note p = unknown_solver_fails_before_any_optimizer_step [rule_format, OF ne,
      where optimize = example_optimize and ext = example_externals
        and elems = "[Atomic_symbol ''H'', Atomic_symbol ''H'']" and ?coords0.0 = "[[0, 0, 0], [1, 0, 0]]"
        and calculators = "[5, 7]" and e_shift = 3
        and coupling = 0 and maxsteps = 100 and cb = None and conv_params = None
        and path = None and w = example_world]
  from x have x1: "select_solver ''scipy'' = None"
    by (rule conjunct1)
  from x [THEN conjunct2, THEN conjunct1] mk example_get_pyscf_mole
  have x2: "ts_from_gfnff example_optimize example_externals
            [Atomic_symbol ''H'', Atomic_symbol ''H''] [[0, 0, 0], [1, 0, 0]] [''a'', ''bcd''] None None
            3 0 100 None None ''scipy'' (Some [''home'', ''run'']) example_world
          = (Inl (UnboundLocalError ''pyscf_solver''),
             example_world\<lparr>files := (files example_world)([''home'', ''run''] \<mapsto> Dir)\<rparr>)"
    by simp
  from p [THEN conjunct2, THEN conjunct2, THEN conjunct1] example_get_pyscf_mole
  have p2: "fst (ts_from_gfnff_python example_optimize example_externals
            [Atomic_symbol ''H'', Atomic_symbol ''H''] [[0, 0, 0], [1, 0, 0]] [5, 7]
            3 0 100 None None ''scipy'' None example_world)
          = Inl (UnboundLocalError ''pyscf_solver'')"
    by simp
  from x [THEN conjunct2, THEN conjunct2, THEN conjunct2, THEN conjunct1] t0
  have x3: "trace (snd (ts_from_gfnff example_optimize example_externals
            [Atomic_symbol ''H'', Atomic_symbol ''H''] [[0, 0, 0], [1, 0, 0]] [''a'', ''bcd''] None None
            3 0 100 None None ''scipy'' (Some [''home'', ''run'']) example_world)) = []"
    by simp
  from p [THEN conjunct2, THEN conjunct2, THEN conjunct2, THEN conjunct2, THEN conjunct2,
      THEN conjunct2, THEN conjunct1] t0
  have p3: "trace (snd (ts_from_gfnff_python example_optimize example_externals
            [Atomic_symbol ''H'', Atomic_symbol ''H''] [[0, 0, 0], [1, 0, 0]] [5, 7]
            3 0 100 None None ''scipy'' None example_world)) = []"
    by simp
  from ne x1 x2 x3 p2 p3 show ?thesis
    by simp
qed

end
